theory Spec2Isabelle
  imports Main "HOL-Library.Word"
begin

unbundle bit_operations_syntax

section \<open>Status codes, handles and plain data\<close>

text \<open>
  Every function of the two source files returns an HRESULT. A call that succeeds is the
  \<open>Inr\<close> side of a sum; the \<open>Inl\<close> side carries the failing status. \<open>E_CALLEE\<close> is a
  failing status handed back unchanged from a callee outside these files (a COM call on
  the debug target, \<open>coreclr_initialize\<close>, \<open>createDelegate\<close>); \<open>IfFailRet\<close> passes
  it on. \<open>NULL_CALL\<close> is not an HRESULT: it marks a call through a null function pointer,
  which the source guards with \<open>_ASSERTE\<close> only.
\<close>

datatype failure = E_FAIL | E_OUTOFMEMORY | E_CALLEE int | NULL_CALL

type_synonym mdMethodDef = "32 word"
type_synonym CORDB_ADDRESS = "64 word"

text \<open>\<open>PVOID\<close>: the opaque handle of the managed symbol reader; 0 is the null pointer.\<close>

type_synonym PVOID = nat

text \<open>A \<open>BSTR\<close>: \<open>None\<close> is the null string, \<open>Some n\<close> a buffer of \<open>n\<close> characters.\<close>

type_synonym BSTR = "nat option"

text \<open>
  \<open>SymbolReader::SequencePoint\<close>, five 32-bit integers, and \<open>Modules::SequencePoint\<close>,
  the same five fields and the document. The struct declarations are in the headers; the
  field list is the one \<open>GetFrameILAndSequencePoint\<close> copies, and \<open>offset\<close> is signed
  (the source compares it with \<open>static_cast<int32_t>(ilOffset)\<close>).
\<close>

record SequencePoint =
  startLine :: "32 word"
  startColumn :: "32 word"
  endLine :: "32 word"
  endColumn :: "32 word"
  offset :: "32 word"

record Modules_SequencePoint = SequencePoint +
  document :: string

record GUID =
  Data1 :: "32 word"
  Data2 :: "16 word"
  Data3 :: "16 word"
  Data4 :: "8 word list"

text \<open>\<open>MAX_LONGPATH\<close> comes from the platform headers; no theorem depends on its value.\<close>

definition MAX_LONGPATH :: nat where
  "MAX_LONGPATH = 1024"

text \<open>
  \<open>to_utf8\<close> converts a wide string to a narrow one. Both are \<open>string\<close> here, so the
  conversion keeps the characters.
\<close>

definition to_utf8 :: "string \<Rightarrow> string" where
  "to_utf8 w = w"

section \<open>The debug target: COM objects as the results of their methods\<close>

text \<open>
  The target-control layer is outside the source. Each interface is a record holding, for
  every method the source calls, what the call returns: the failing status, or the value
  written to the out-parameter.
\<close>

record IMetaDataImport =
  GetScopeProps :: "failure + GUID"

record IUnknown =
  QueryInterface_IMetaDataImport :: "failure + IMetaDataImport"

record ICorDebugProcess =
  GetID :: "failure + 32 word"

record ICorDebugModule =
  GetName :: "failure + string"
  GetProcess :: "failure + ICorDebugProcess"
  GetBaseAddress :: "failure + CORDB_ADDRESS"
  GetSize :: "failure + 32 word"
  IsDynamic :: "failure + bool"
  IsInMemory :: "failure + bool"
  GetMetaDataInterface :: "failure + IUnknown"

record ICorDebugCode =
  Code_GetSize :: "failure + 32 word"

record ICorDebugFunction =
  GetModule :: "failure + ICorDebugModule"
  GetILCode :: "failure + ICorDebugCode"

record ICorDebugILFrame =
  GetIP :: "failure + 32 word"

record ICorDebugFrame =
  GetFunctionToken :: "failure + mdMethodDef"
  GetFunction :: "failure + ICorDebugFunction"
  QueryInterface_ICorDebugILFrame :: "failure + ICorDebugILFrame"

text \<open>\<open>GetActiveFrame\<close> may succeed and still write a null frame: \<open>Inr None\<close>.\<close>

record ICorDebugThread =
  GetActiveFrame :: "failure + ICorDebugFrame option"

record COR_DEBUG_STEP_RANGE =
  startOffset :: "32 word"
  endOffset :: "32 word"

section \<open>The process-wide state of the symbol reader\<close>

text \<open>
  The entry points of the managed class \<open>SOS.SymbolReader\<close>, as the native side calls them
  through its delegates. A \<open>BOOL\<close> result with out-parameters is an option: \<open>None\<close> is
  \<open>FALSE\<close>, \<open>Some\<close> holds what was written.
\<close>

type_synonym LoadSymbolsForModuleDelegate =
  "string option \<Rightarrow> bool \<Rightarrow> 64 word \<Rightarrow> 32 word \<Rightarrow> 64 word \<Rightarrow> 32 word \<Rightarrow> PVOID"
type_synonym ResolveSequencePointDelegate =
  "PVOID \<Rightarrow> string \<Rightarrow> 32 word \<Rightarrow> (mdMethodDef \<times> 32 word) option"
type_synonym GetLineByILOffsetDelegate =
  "PVOID \<Rightarrow> mdMethodDef \<Rightarrow> 64 word \<Rightarrow> (32 word \<times> string) option"
type_synonym GetStepRangesFromIPDelegate =
  "PVOID \<Rightarrow> 32 word \<Rightarrow> mdMethodDef \<Rightarrow> (32 word \<times> 32 word) option"
type_synonym GetSequencePointsDelegate =
  "PVOID \<Rightarrow> mdMethodDef \<Rightarrow> SequencePoint list option"

text \<open>
  The static members of \<open>SymbolReader\<close> and the function-local static
  \<open>attemptedSymbolReaderPreparation\<close>. A function pointer is \<open>None\<close> while it is null. The
  delegates no modelled function calls are kept as flags (\<open>True\<close>: bound).
  \<open>preparations\<close> is a ghost counter, not a variable of the source: it counts how often
  control has passed the latch of \<open>PrepareSymbolReader\<close> into the initialization work.
\<close>

record statics =
  coreClrPath :: string
  attemptedSymbolReaderPreparation :: bool
  loadSymbolsForModuleDelegate :: "LoadSymbolsForModuleDelegate option"
  disposeDelegate :: bool
  resolveSequencePointDelegate :: "ResolveSequencePointDelegate option"
  getLocalVariableNameAndScopeDelegate :: bool
  getLineByILOffsetDelegate :: "GetLineByILOffsetDelegate option"
  getStepRangesFromIPDelegate :: "GetStepRangesFromIPDelegate option"
  getSequencePointsDelegate :: "GetSequencePointsDelegate option"
  parseExpressionDelegate :: bool
  evalExpressionDelegate :: bool
  registerGetChildDelegate :: "bool option"
  sysAllocStringLen :: "(nat \<Rightarrow> BSTR) option"
  sysFreeString :: bool
  sysStringLen :: "(BSTR \<Rightarrow> nat) option"
  coTaskMemAlloc :: bool
  coTaskMemFree :: bool
  preparations :: nat

text \<open>An instance of \<open>SymbolReader\<close>: its one field; a fresh instance holds the null handle.\<close>

record SymbolReader =
  m_symbolReaderHandle :: PVOID

definition new_SymbolReader :: SymbolReader where
  "new_SymbolReader = \<lparr>m_symbolReaderHandle = 0\<rparr>"

text \<open>
  Modelled from the spec: \<open>SymbolReader::SymbolsLoaded\<close> is defined in symbolreader.h,
  which is not among the sources. The spec has a provider present exactly when symbols
  were loaded, and every query of symbolreader.cpp tests the handle against 0 for that.
  (The prime keeps the name apart from the value \<open>SymbolsLoaded\<close> of the status.)
\<close>

definition SymbolsLoaded' :: "SymbolReader \<Rightarrow> bool" where
  "SymbolsLoaded' sr = (m_symbolReaderHandle sr \<noteq> 0)"

section \<open>Queries of one symbol reader (symbolreader.cpp)\<close>

text \<open>
  \<open>SymbolReader::ResolveSequencePoint\<close>. The parameter \<open>mod\<close> is not used by the source.
\<close>

definition ResolveSequencePoint ::
  "statics \<Rightarrow> SymbolReader \<Rightarrow> string \<Rightarrow> 32 word \<Rightarrow> CORDB_ADDRESS \<Rightarrow> failure + (mdMethodDef \<times> 32 word)"
where
  "ResolveSequencePoint st sr filename lineNumber mod' =
     (if m_symbolReaderHandle sr \<noteq> 0 then
        (case resolveSequencePointDelegate st of
           None \<Rightarrow> Inl NULL_CALL
         | Some dlg \<Rightarrow>
             (case dlg (m_symbolReaderHandle sr) filename lineNumber of
                None \<Rightarrow> Inl E_FAIL
              | Some r \<Rightarrow> Inr r))
      else Inl E_FAIL)"

text \<open>
  \<open>wcscpy_s(dest, cch, src)\<close> as the source uses it, with the result dropped: the
  string is copied when it fits into \<open>cch\<close> characters with its terminator. When it
  does not fit, the destination is reset to the empty string and the invalid-parameter
  handler is called, which ends in the empty \<open>RaiseException\<close> of this file (under
  \<open>FEATURE_PAL\<close>), so the caller goes on with the empty string.
\<close>

definition wcscpy_s :: "nat \<Rightarrow> string \<Rightarrow> string" where
  "wcscpy_s cch src = (if length src < cch then src else [])"

text \<open>
  \<open>SymbolReader::GetLineByILOffset\<close>. The string buffer is allocated first
  (\<open>E_OUTOFMEMORY\<close> when its length reads 0) and the delegate is called after that;
  the call fails when the delegate reports \<open>FALSE\<close> or the line written is 0.
  Otherwise the file name is copied into the caller's buffer of \<open>cchFileName\<close>
  characters. The source tests nothing else here: its comment leaves the lines marked
  \<open>0xFEEFEE\<close> to the managed side.
\<close>

definition GetLineByILOffset ::
  "statics \<Rightarrow> SymbolReader \<Rightarrow> mdMethodDef \<Rightarrow> 64 word \<Rightarrow> nat \<Rightarrow> failure + (32 word \<times> string)"
where
  "GetLineByILOffset st sr methodToken ilOffset cchFileName =
     (if m_symbolReaderHandle sr \<noteq> 0 then
        (case sysAllocStringLen st of
           None \<Rightarrow> Inl NULL_CALL
         | Some alloc \<Rightarrow>
        (case sysStringLen st of
           None \<Rightarrow> Inl NULL_CALL
         | Some strlen \<Rightarrow>
             if strlen (alloc MAX_LONGPATH) = 0 then Inl E_OUTOFMEMORY
             else
               (case getLineByILOffsetDelegate st of
                  None \<Rightarrow> Inl NULL_CALL
                | Some dlg \<Rightarrow>
               (case dlg (m_symbolReaderHandle sr) methodToken ilOffset of
                  None \<Rightarrow> Inl E_FAIL
                | Some (linenum, bstrFileName) \<Rightarrow>
                    if linenum = 0 then Inl E_FAIL
                    else Inr (linenum, wcscpy_s cchFileName bstrFileName)))))
      else Inl E_FAIL)"

text \<open>\<open>SymbolReader::GetStepRangesFromIP\<close>.\<close>

definition GetStepRangesFromIP ::
  "statics \<Rightarrow> SymbolReader \<Rightarrow> 32 word \<Rightarrow> mdMethodDef \<Rightarrow> failure + (32 word \<times> 32 word)"
where
  "GetStepRangesFromIP st sr ip MethodToken =
     (if m_symbolReaderHandle sr \<noteq> 0 then
        (case getStepRangesFromIPDelegate st of
           None \<Rightarrow> Inl NULL_CALL
         | Some dlg \<Rightarrow>
             (case dlg (m_symbolReaderHandle sr) ip MethodToken of
                None \<Rightarrow> Inl E_FAIL
              | Some r \<Rightarrow> Inr r))
      else Inl E_FAIL)"

text \<open>
  \<open>SymbolReader::GetSequencePoints\<close>: the points the delegate allocated, copied into the
  vector in their order.
\<close>

definition GetSequencePoints ::
  "statics \<Rightarrow> SymbolReader \<Rightarrow> mdMethodDef \<Rightarrow> failure + SequencePoint list"
where
  "GetSequencePoints st sr methodToken =
     (if m_symbolReaderHandle sr \<noteq> 0 then
        (case getSequencePointsDelegate st of
           None \<Rightarrow> Inl NULL_CALL
         | Some dlg \<Rightarrow>
             (case dlg (m_symbolReaderHandle sr) methodToken of
                None \<Rightarrow> Inl E_FAIL
              | Some points \<Rightarrow> Inr points))
      else Inl E_FAIL)"

section \<open>The module registry (modules.cpp)\<close>

text \<open>
  \<open>ModuleInfo\<close>: the symbol reader a registry entry owns and the module it refers to.
\<close>

record ModuleInfo =
  symbols :: SymbolReader
  module :: ICorDebugModule

text \<open>
  Modelled from the spec: the declaration of \<open>m_modulesInfo\<close> is in modules.h, which is
  not among the sources. The spec makes it a mapping from base address to record with
  at most one record per address; the source uses it as a standard keyed container
  (\<open>find\<close>, \<open>insert\<close> of a pair, \<open>clear\<close>, iteration over pairs). It is an association
  list here: the order of the list is the container's iteration order, \<open>find\<close> is
  \<open>map_of\<close>, and \<open>insert\<close> leaves the container as it is when the key is present (the
  standard meaning of \<open>insert\<close> on a keyed container with unique keys). Where a new
  pair lands in the iteration order is the container's choice; the model puts it last.
\<close>

type_synonym registry = "(CORDB_ADDRESS \<times> ModuleInfo) list"

definition registry_find :: "registry \<Rightarrow> CORDB_ADDRESS \<Rightarrow> ModuleInfo option" where
  "registry_find m_modulesInfo a = map_of m_modulesInfo a"

definition registry_insert :: "registry \<Rightarrow> CORDB_ADDRESS \<times> ModuleInfo \<Rightarrow> registry" where
  "registry_insert m_modulesInfo kv =
     (if fst kv \<in> fst ` set m_modulesInfo then m_modulesInfo else m_modulesInfo @ [kv])"

text \<open>\<open>Modules::CleanupAllModules\<close>.\<close>

definition CleanupAllModules :: "registry \<Rightarrow> registry" where
  "CleanupAllModules m_modulesInfo = []"

section \<open>The current location of a frame\<close>

text \<open>
  The scan of \<open>GetFrameILAndSequencePoint\<close>. In the source \<open>nearestPoint\<close> is a reference
  to \<open>points.front()\<close>, so each assignment to it overwrites element 0 of the vector the
  loop is walking; the model keeps the vector and updates index 0. \<open>i\<close> is the position
  of the range-for. The first comparison is signed, the second compares an
  \<open>int32_t\<close> with a \<open>ULONG32\<close>, which is equality of the 32 bits.
\<close>

function nearest_scan :: "SequencePoint list \<Rightarrow> nat \<Rightarrow> 32 word \<Rightarrow> SequencePoint list" where
  "nearest_scan points i ilOffset =
     (if i < length points then
        (let p = points ! i in
         if offset p <s ilOffset then nearest_scan (points[0 := p]) (Suc i) ilOffset
         else if offset p = ilOffset then points[0 := p]
         else points)
      else points)"
  by pat_completeness auto
termination
  by (relation "measure (\<lambda>(points, i, ilOffset). length points - i)") auto

declare nearest_scan.simps [simp del]

text \<open>
  \<open>Modules::GetFrameILAndSequencePoint\<close>. The two reference parameters are passed in
  with the caller's values and returned with what the call left in them: \<open>ilOffset\<close> is
  written by \<open>GetIP\<close>, \<open>sequencePoint\<close> only on the path that returns \<open>S_OK\<close>. (A failing
  \<open>GetIP\<close> is taken to leave \<open>ilOffset\<close> alone.) The metadata interface is fetched and
  not used.
\<close>

definition GetFrameILAndSequencePoint ::
  "statics \<Rightarrow> registry \<Rightarrow> ICorDebugFrame \<Rightarrow> 32 word \<Rightarrow> Modules_SequencePoint
     \<Rightarrow> (failure + unit) \<times> 32 word \<times> Modules_SequencePoint"
where
  "GetFrameILAndSequencePoint st m_modulesInfo pFrame ilOffset sequencePoint =
     (case GetFunctionToken pFrame of
        Inl e \<Rightarrow> (Inl e, ilOffset, sequencePoint)
      | Inr methodToken \<Rightarrow>
     (case GetFunction pFrame of
        Inl e \<Rightarrow> (Inl e, ilOffset, sequencePoint)
      | Inr pFunc \<Rightarrow>
     (case GetModule pFunc of
        Inl e \<Rightarrow> (Inl e, ilOffset, sequencePoint)
      | Inr pModule \<Rightarrow>
     (case GetMetaDataInterface pModule of
        Inl e \<Rightarrow> (Inl e, ilOffset, sequencePoint)
      | Inr pMDUnknown \<Rightarrow>
     (case QueryInterface_ICorDebugILFrame pFrame of
        Inl e \<Rightarrow> (Inl e, ilOffset, sequencePoint)
      | Inr pILFrame \<Rightarrow>
     (case GetIP pILFrame of
        Inl e \<Rightarrow> (Inl e, ilOffset, sequencePoint)
      | Inr ilOffset' \<Rightarrow>
     (case GetBaseAddress pModule of
        Inl e \<Rightarrow> (Inl e, ilOffset', sequencePoint)
      | Inr modAddress \<Rightarrow>
     (case registry_find m_modulesInfo modAddress of
        None \<Rightarrow> (Inl E_FAIL, ilOffset', sequencePoint)
      | Some info \<Rightarrow>
     (case GetLineByILOffset st (symbols info) methodToken (ucast ilOffset') MAX_LONGPATH of
        Inl e \<Rightarrow> (Inl e, ilOffset', sequencePoint)
      | Inr (linenum, name) \<Rightarrow>
     (case GetSequencePoints st (symbols info) methodToken of
        Inl e \<Rightarrow> (Inl e, ilOffset', sequencePoint)
      | Inr points \<Rightarrow>
          if points = [] then (Inl E_FAIL, ilOffset', sequencePoint)
          else
            (let nearestPoint = hd (nearest_scan points 0 ilOffset') in
             (Inr (), ilOffset',
              sequencePoint\<lparr>startLine := startLine nearestPoint,
                             endLine := endLine nearestPoint,
                             startColumn := startColumn nearestPoint,
                             endColumn := endColumn nearestPoint,
                             offset := offset nearestPoint,
                             document := to_utf8 name\<rparr>))))))))))))"

text \<open>
  The selection rule in the words of the spec, to compare the scan with: a point whose
  offset equals the query offset wins (the first one, should several carry that offset);
  otherwise the last point whose offset is strictly less; otherwise the first point of
  the table. The comparison of offsets is the signed one.
\<close>

definition spec_nearest_point :: "SequencePoint list \<Rightarrow> 32 word \<Rightarrow> SequencePoint" where
  "spec_nearest_point points q =
     (case find (\<lambda>p. offset p = q) points of
        Some p \<Rightarrow> p
      | None \<Rightarrow>
          if filter (\<lambda>p. offset p <s q) points = [] then hd points
          else last (filter (\<lambda>p. offset p <s q) points))"

text \<open>
  The scan without the vector: the candidate so far and the points still to visit. Used
  to reason about \<open>nearest_scan\<close>.
\<close>

fun nearest_from :: "SequencePoint \<Rightarrow> SequencePoint list \<Rightarrow> 32 word \<Rightarrow> SequencePoint" where
  "nearest_from cur [] q = cur"
| "nearest_from cur (p # ps) q =
     (if offset p <s q then nearest_from p ps q else if offset p = q then p else cur)"

section \<open>The step range at the current instruction\<close>

text \<open>
  \<open>Modules::GetStepRangeFromCurrentIP\<close>. \<open>range\<close> is written only on the path that
  returns \<open>S_OK\<close>, so it is the \<open>Inr\<close> value.
\<close>

definition GetStepRangeFromCurrentIP ::
  "statics \<Rightarrow> registry \<Rightarrow> ICorDebugThread \<Rightarrow> failure + COR_DEBUG_STEP_RANGE"
where
  "GetStepRangeFromCurrentIP st m_modulesInfo pThread =
     (case GetActiveFrame pThread of
        Inl e \<Rightarrow> Inl e
      | Inr None \<Rightarrow> Inl E_FAIL
      | Inr (Some pFrame) \<Rightarrow>
     (case GetFunctionToken pFrame of
        Inl e \<Rightarrow> Inl e
      | Inr methodToken \<Rightarrow>
     (case GetFunction pFrame of
        Inl e \<Rightarrow> Inl e
      | Inr pFunc \<Rightarrow>
     (case GetModule pFunc of
        Inl e \<Rightarrow> Inl e
      | Inr pModule \<Rightarrow>
     (case QueryInterface_ICorDebugILFrame pFrame of
        Inl e \<Rightarrow> Inl e
      | Inr pILFrame \<Rightarrow>
     (case GetIP pILFrame of
        Inl e \<Rightarrow> Inl e
      | Inr nOffset \<Rightarrow>
     (case GetBaseAddress pModule of
        Inl e \<Rightarrow> Inl e
      | Inr modAddress \<Rightarrow>
     (case registry_find m_modulesInfo modAddress of
        None \<Rightarrow> Inl E_FAIL
      | Some info \<Rightarrow>
     (case GetStepRangesFromIP st (symbols info) nOffset methodToken of
        Inl e \<Rightarrow> Inl e
      | Inr (ilStartOffset, ilEndOffset) \<Rightarrow>
          if ilStartOffset = ilEndOffset then
            (case GetILCode pFunc of
               Inl e \<Rightarrow> Inl e
             | Inr pCode \<Rightarrow>
            (case Code_GetSize pCode of
               Inl e \<Rightarrow> Inl e
             | Inr codeSize \<Rightarrow>
                 Inr \<lparr>startOffset = ilStartOffset, endOffset = codeSize\<rparr>))
          else Inr \<lparr>startOffset = ilStartOffset, endOffset = ilEndOffset\<rparr>)))))))))"

section \<open>Resolving a source line in any module\<close>

text \<open>What \<open>GetLocationInAny\<close> hands back through its out-parameters on \<open>S_OK\<close>.\<close>

record Location =
  loc_ilOffset :: "32 word"
  loc_methodToken :: mdMethodDef
  loc_fullname :: string
  loc_ppModule :: ICorDebugModule

text \<open>
  \<open>Modules::GetLocationInAny\<close>: the loop over the registry in its iteration order. A
  failing \<open>GetBaseAddress\<close> returns at once (\<open>IfFailRet\<close>); a failing provider call goes
  on with the next module (\<open>continue\<close>); the first module on which both provider calls
  succeed returns; the end of the registry is \<open>E_FAIL\<close>. A call through a null delegate
  does not return a status, so it does not reach the \<open>continue\<close>. On a failure the
  reference parameters may hold what a skipped module's \<open>ResolveSequencePoint\<close> wrote;
  the model hands values back on success only.
\<close>

fun GetLocationInAny :: "statics \<Rightarrow> registry \<Rightarrow> string \<Rightarrow> 32 word \<Rightarrow> failure + Location" where
  "GetLocationInAny st [] filename linenum = Inl E_FAIL"
| "GetLocationInAny st (info_pair # rest) filename linenum =
     (let mdInfo = snd info_pair in
      case GetBaseAddress (module mdInfo) of
        Inl e \<Rightarrow> Inl e
      | Inr modAddress \<Rightarrow>
     (case ResolveSequencePoint st (symbols mdInfo) filename linenum modAddress of
        Inl NULL_CALL \<Rightarrow> Inl NULL_CALL
      | Inl e \<Rightarrow> GetLocationInAny st rest filename linenum
      | Inr (methodToken, ilOffset) \<Rightarrow>
     (case GetLineByILOffset st (symbols mdInfo) methodToken (ucast ilOffset) MAX_LONGPATH of
        Inl NULL_CALL \<Rightarrow> Inl NULL_CALL
      | Inl e \<Rightarrow> GetLocationInAny st rest filename linenum
      | Inr (resolvedLinenum, wFilename) \<Rightarrow>
          Inr \<lparr>loc_ilOffset = ilOffset, loc_methodToken = methodToken,
               loc_fullname = to_utf8 wFilename, loc_ppModule = module mdInfo\<rparr>)))"

text \<open>
  \<open>Modules::GetLocationInModule\<close>: the same two provider calls on the one module found
  by its base address; every failure is returned.
\<close>

definition GetLocationInModule ::
  "statics \<Rightarrow> registry \<Rightarrow> ICorDebugModule \<Rightarrow> string \<Rightarrow> 32 word
     \<Rightarrow> failure + (32 word \<times> mdMethodDef \<times> string)"
where
  "GetLocationInModule st m_modulesInfo pModule filename linenum =
     (case GetBaseAddress pModule of
        Inl e \<Rightarrow> Inl e
      | Inr modAddress \<Rightarrow>
     (case registry_find m_modulesInfo modAddress of
        None \<Rightarrow> Inl E_FAIL
      | Some info \<Rightarrow>
     (case ResolveSequencePoint st (symbols info) filename linenum modAddress of
        Inl e \<Rightarrow> Inl e
      | Inr (methodToken, ilOffset) \<Rightarrow>
     (case GetLineByILOffset st (symbols info) methodToken (ucast ilOffset) MAX_LONGPATH of
        Inl e \<Rightarrow> Inl e
      | Inr (resolvedLinenum, wFilename) \<Rightarrow>
          Inr (ilOffset, methodToken, to_utf8 wFilename)))))"

section \<open>The module identifier\<close>

text \<open>
  What the output stream does with an unsigned number: \<open>hex_of_nat\<close> under \<open>std::hex\<close>
  (lower-case digits, no leading zeros, \<open>0\<close> for zero), \<open>dec_of_nat\<close> in the default
  base, and \<open>setw_setfill\<close> for \<open>setfill(c)\<close> and \<open>setw(w)\<close> before one item: the
  item is right-aligned in a field of at least \<open>w\<close> characters and never cut.
\<close>

definition hex_digit :: "nat \<Rightarrow> char" where
  "hex_digit d = ''0123456789abcdef'' ! (d mod 16)"

fun hex_of_nat :: "nat \<Rightarrow> string" where
  "hex_of_nat n =
     (if n < 16 then [hex_digit n] else hex_of_nat (n div 16) @ [hex_digit (n mod 16)])"

declare hex_of_nat.simps [simp del]

definition dec_digit :: "nat \<Rightarrow> char" where
  "dec_digit d = ''0123456789'' ! (d mod 10)"

fun dec_of_nat :: "nat \<Rightarrow> string" where
  "dec_of_nat n =
     (if n < 10 then [dec_digit n] else dec_of_nat (n div 10) @ [dec_digit (n mod 10)])"

declare dec_of_nat.simps [simp del]

definition setw_setfill :: "nat \<Rightarrow> char \<Rightarrow> string \<Rightarrow> string" where
  "setw_setfill w c s = replicate (w - length s) c @ s"

text \<open>
  One byte of \<open>Data4\<close> as the source prints it: \<open>static_cast<int>(mvid.Data4[i]) & 0xFF\<close>
  in a field of two.
\<close>

definition Data4_hex :: "GUID \<Rightarrow> nat \<Rightarrow> string" where
  "Data4_hex mvid i =
     setw_setfill 2 (CHR ''0'') (hex_of_nat (unat ((ucast (Data4 mvid ! i) :: 32 word) AND 0xFF)))"

text \<open>
  The text \<open>GetModuleId\<close> builds from the MVID: \<open>Data1\<close> in a field of 8, a hyphen,
  \<open>Data2\<close> and \<open>Data3\<close> in fields of 4 with a hyphen after each, bytes 0 and 1 of
  \<open>Data4\<close> in fields of 2 with no hyphen between them, a hyphen, and bytes 2 to 7 in
  fields of 2 (the \<open>for\<close> loop).
\<close>

definition format_mvid :: "GUID \<Rightarrow> string" where
  "format_mvid mvid =
     setw_setfill 8 (CHR ''0'') (hex_of_nat (unat (Data1 mvid))) @ ''-'' @
     setw_setfill 4 (CHR ''0'') (hex_of_nat (unat (Data2 mvid))) @ ''-'' @
     setw_setfill 4 (CHR ''0'') (hex_of_nat (unat (Data3 mvid))) @ ''-'' @
     Data4_hex mvid 0 @ Data4_hex mvid 1 @ ''-'' @
     concat (map (Data4_hex mvid) [2..<8])"

text \<open>\<open>Modules::GetModuleId\<close>.\<close>

definition GetModuleId :: "ICorDebugModule \<Rightarrow> failure + string" where
  "GetModuleId pModule =
     (case GetMetaDataInterface pModule of
        Inl e \<Rightarrow> Inl e
      | Inr pMDUnknown \<Rightarrow>
     (case QueryInterface_IMetaDataImport pMDUnknown of
        Inl e \<Rightarrow> Inl e
      | Inr pMDImport \<Rightarrow>
     (case GetScopeProps pMDImport of
        Inl e \<Rightarrow> Inl e
      | Inr mvid \<Rightarrow> Inr (format_mvid mvid))))"

text \<open>
  The pieces of a string between occurrences of a separator, to state the grouping of
  the identifier: \<open>split_on c s\<close> has one piece more than \<open>s\<close> has occurrences of \<open>c\<close>.
\<close>

fun split_on :: "char \<Rightarrow> string \<Rightarrow> string list" where
  "split_on c [] = [[]]"
| "split_on c (x # xs) =
     (if x = c then [] # split_on c xs
      else (case split_on c xs of
              [] \<Rightarrow> [[x]]
            | g # gs \<Rightarrow> (x # g) # gs))"

text \<open>The digits \<open>std::hex\<close> prints.\<close>

definition hexset :: "char set" where
  "hexset = set ''0123456789abcdef''"

section \<open>The file name of a module\<close>

text \<open>
  \<open>Modules::GetModuleFileName\<close>: the name of the module, with a leading
  \<open>/proc/self/\<close> rewritten to the debuggee's process id; the empty string when a call on
  the target fails.
\<close>

definition selfPrefix :: string where
  "selfPrefix = ''/proc/self/''"

definition GetModuleFileName :: "ICorDebugModule \<Rightarrow> string" where
  "GetModuleFileName pModule =
     (case GetName pModule of
        Inl e \<Rightarrow> []
      | Inr name \<Rightarrow>
          (let moduleName = to_utf8 name in
           if take (length selfPrefix) moduleName \<noteq> selfPrefix then moduleName
           else
             (case GetProcess pModule of
                Inl e \<Rightarrow> []
              | Inr pProcess \<Rightarrow>
             (case GetID pProcess of
                Inl e \<Rightarrow> []
              | Inr pid \<Rightarrow>
                  ''/proc/'' @ dec_of_nat (unat pid) @ ''/'' @
                  drop (length selfPrefix) moduleName))))"

section \<open>Setting up the symbol reader, once\<close>

text \<open>
  What lies outside the two source files and is not a COM object of the target: the
  dynamic loader, the hosted runtime and its managed class, the executable's path, and
  the helpers of the repository whose definitions are in other files
  (\<open>ShouldLoadSymbolsForModule\<close>, \<open>GetFileName\<close>, \<open>AddFilesFromDirectoryToTpaList\<close>,
  \<open>GetExeAbsPath\<close>). \<open>DLOpen\<close> and \<open>DLSym\<close> tell whether the pointer returned is
  non-null; \<open>coreclr_create_delegate\<close> tells, by the name of the entry point, whether
  the delegate was created. \<open>FEATURE_PAL\<close> is the build flag of the \<open>#ifdef\<close>.
\<close>

record environment =
  FEATURE_PAL :: bool
  DIRECTORY_SEPARATOR_STR_A :: string
  DLOpen :: "string \<Rightarrow> bool"
  DLSym :: "string \<Rightarrow> bool"
  SysAllocStringLen :: "nat \<Rightarrow> BSTR"
  SysStringLen :: "BSTR \<Rightarrow> nat"
  AddFilesFromDirectoryToTpaList :: "string \<Rightarrow> string"
  GetExeAbsPath :: string
  coreclr_initialize :: "string \<Rightarrow> string list \<Rightarrow> failure + unit"
  coreclr_create_delegate :: "string \<Rightarrow> failure + unit"
  SOS_LoadSymbolsForModule :: LoadSymbolsForModuleDelegate
  SOS_ResolveSequencePoint :: ResolveSequencePointDelegate
  SOS_GetLineByILOffset :: GetLineByILOffsetDelegate
  SOS_GetStepRangesFromIP :: GetStepRangesFromIPDelegate
  SOS_GetSequencePoints :: GetSequencePointsDelegate
  SOS_RegisterGetChild :: bool
  ShouldLoadSymbolsForModule :: "string \<Rightarrow> bool"
  GetFileName :: "string \<Rightarrow> string"

text \<open>
  \<open>std::string::rfind\<close>: the last position at which the second string starts in the
  first; \<open>None\<close> is \<open>npos\<close>. \<open>substr0\<close> is \<open>substr(0, pos)\<close>, which keeps the whole
  string when \<open>pos\<close> is \<open>npos\<close>.
\<close>

definition rfind :: "string \<Rightarrow> string \<Rightarrow> nat option" where
  "rfind s t =
     (case filter (\<lambda>i. take (length t) (drop i s) = t) (rev [0..<Suc (length s)]) of
        [] \<Rightarrow> None
      | i # _ \<Rightarrow> Some i)"

definition substr0 :: "string \<Rightarrow> nat option \<Rightarrow> string" where
  "substr0 s pos = (case pos of None \<Rightarrow> s | Some n \<Rightarrow> take n s)"

text \<open>
  The assignments to the five allocator pointers: looked up in the runtime library
  under \<open>FEATURE_PAL\<close>, the platform's own functions otherwise.
\<close>

definition bind_allocators :: "environment \<Rightarrow> statics \<Rightarrow> statics" where
  "bind_allocators env st =
     (if FEATURE_PAL env then
        st\<lparr>sysAllocStringLen :=
              (if DLSym env ''SysAllocStringLen'' then Some (SysAllocStringLen env) else None),
           sysFreeString := DLSym env ''SysFreeString'',
           sysStringLen :=
              (if DLSym env ''SysStringLen'' then Some (SysStringLen env) else None),
           coTaskMemAlloc := DLSym env ''CoTaskMemAlloc'',
           coTaskMemFree := DLSym env ''CoTaskMemFree''\<rparr>
      else
        st\<lparr>sysAllocStringLen := Some (SysAllocStringLen env),
           sysFreeString := True,
           sysStringLen := Some (SysStringLen env),
           coTaskMemAlloc := True,
           coTaskMemFree := True\<rparr>)"

text \<open>
  The calls of \<open>createDelegate\<close> in the order of the source, each writing its static
  pointer when it succeeds (a failing call is taken to leave the pointer as it was),
  and the registration of the child callback. The first call turns any failure into
  \<open>E_FAIL\<close>; the others pass the status on (\<open>IfFailRet\<close>). The detached thread that warms
  up the expression parser afterwards is not modelled: it writes none of these
  variables.
\<close>

definition create_delegates :: "environment \<Rightarrow> statics \<Rightarrow> (failure + unit) \<times> statics" where
  "create_delegates env st0 =
     (case coreclr_create_delegate env ''LoadSymbolsForModule'' of
        Inl e \<Rightarrow> (Inl E_FAIL, st0)
      | Inr _ \<Rightarrow>
     (let st1 = st0\<lparr>loadSymbolsForModuleDelegate := Some (SOS_LoadSymbolsForModule env)\<rparr> in
      case coreclr_create_delegate env ''Dispose'' of
        Inl e \<Rightarrow> (Inl e, st1)
      | Inr _ \<Rightarrow>
     (let st2 = st1\<lparr>disposeDelegate := True\<rparr> in
      case coreclr_create_delegate env ''ResolveSequencePoint'' of
        Inl e \<Rightarrow> (Inl e, st2)
      | Inr _ \<Rightarrow>
     (let st3 = st2\<lparr>resolveSequencePointDelegate := Some (SOS_ResolveSequencePoint env)\<rparr> in
      case coreclr_create_delegate env ''GetLocalVariableNameAndScope'' of
        Inl e \<Rightarrow> (Inl e, st3)
      | Inr _ \<Rightarrow>
     (let st4 = st3\<lparr>getLocalVariableNameAndScopeDelegate := True\<rparr> in
      case coreclr_create_delegate env ''GetLineByILOffset'' of
        Inl e \<Rightarrow> (Inl e, st4)
      | Inr _ \<Rightarrow>
     (let st5 = st4\<lparr>getLineByILOffsetDelegate := Some (SOS_GetLineByILOffset env)\<rparr> in
      case coreclr_create_delegate env ''GetStepRangesFromIP'' of
        Inl e \<Rightarrow> (Inl e, st5)
      | Inr _ \<Rightarrow>
     (let st6 = st5\<lparr>getStepRangesFromIPDelegate := Some (SOS_GetStepRangesFromIP env)\<rparr> in
      case coreclr_create_delegate env ''GetSequencePoints'' of
        Inl e \<Rightarrow> (Inl e, st6)
      | Inr _ \<Rightarrow>
     (let st7 = st6\<lparr>getSequencePointsDelegate := Some (SOS_GetSequencePoints env)\<rparr> in
      case coreclr_create_delegate env ''ParseExpression'' of
        Inl e \<Rightarrow> (Inl e, st7)
      | Inr _ \<Rightarrow>
     (let st8 = st7\<lparr>parseExpressionDelegate := True\<rparr> in
      case coreclr_create_delegate env ''EvalExpression'' of
        Inl e \<Rightarrow> (Inl e, st8)
      | Inr _ \<Rightarrow>
     (let st9 = st8\<lparr>evalExpressionDelegate := True\<rparr> in
      case coreclr_create_delegate env ''RegisterGetChild'' of
        Inl e \<Rightarrow> (Inl e, st9)
      | Inr _ \<Rightarrow>
     (let st10 = st9\<lparr>registerGetChildDelegate := Some (SOS_RegisterGetChild env)\<rparr> in
      if \<not> SOS_RegisterGetChild env then (Inl E_FAIL, st10)
      else (Inr (), st10))))))))))))"

text \<open>
  \<open>SymbolReader::PrepareSymbolReader\<close>. The latch is read first; a set latch returns
  \<open>E_FAIL\<close> with nothing else done. Otherwise the latch is set before any of the work,
  and every later return keeps it set. \<open>UnsetCoreCLREnv\<close> and the messages printed to
  \<open>stderr\<close> write none of the statics and are left out.
\<close>

definition PrepareSymbolReader :: "environment \<Rightarrow> statics \<Rightarrow> (failure + unit) \<times> statics" where
  "PrepareSymbolReader env st =
     (if attemptedSymbolReaderPreparation st then (Inl E_FAIL, st)
      else
        (let st1 = st\<lparr>attemptedSymbolReaderPreparation := True,
                      preparations := Suc (preparations st)\<rparr>;
             clrDir = substr0 (coreClrPath st1)
                        (rfind (coreClrPath st1) (DIRECTORY_SEPARATOR_STR_A env))
         in
         if \<not> DLOpen env (coreClrPath st1) then (Inl E_FAIL, st1)
         else if \<not> DLSym env ''coreclr_initialize'' then (Inl E_FAIL, st1)
         else
           (let st2 = bind_allocators env st1 in
            if sysAllocStringLen st2 = None then (Inl E_FAIL, st2)
            else if \<not> sysFreeString st2 then (Inl E_FAIL, st2)
            else if sysStringLen st2 = None then (Inl E_FAIL, st2)
            else if \<not> coTaskMemAlloc st2 then (Inl E_FAIL, st2)
            else if \<not> coTaskMemFree st2 then (Inl E_FAIL, st2)
            else
              (let tpaList = AddFilesFromDirectoryToTpaList env clrDir;
                   exe = GetExeAbsPath env
               in
               if exe = [] then (Inl E_FAIL, st2)
               else
                 (case rfind exe (DIRECTORY_SEPARATOR_STR_A env) of
                    None \<Rightarrow> (Inl E_FAIL, st2)
                  | Some dirSepIndex \<Rightarrow>
                      (let exeDir = take dirSepIndex exe in
                       case coreclr_initialize env exe
                              [tpaList, exeDir, exeDir, clrDir,
                               ''UseLatestBehaviorWhenTFMNotSpecified''] of
                         Inl e \<Rightarrow> (Inl e, st2)
                       | Inr _ \<Rightarrow>
                           if \<not> DLSym env ''coreclr_create_delegate'' then (Inl E_FAIL, st2)
                           else create_delegates env st2))))))"

text \<open>
  The latch is local to \<open>PrepareSymbolReader\<close>: between two calls the rest of the
  program can write any other static and cannot write the latch. \<open>other_writes w st\<close>
  is \<open>st\<close> after such writes: every static as in \<open>w\<close>, the latch (and the ghost
  counter) as in \<open>st\<close>.
\<close>

definition other_writes :: "statics \<Rightarrow> statics \<Rightarrow> statics" where
  "other_writes w st =
     w\<lparr>attemptedSymbolReaderPreparation := attemptedSymbolReaderPreparation st,
       preparations := preparations st\<rparr>"

text \<open>
  A run of calls of \<open>PrepareSymbolReader\<close>: each call in the environment of its
  moment, after whatever the rest of the program wrote since the call before.
\<close>

fun PrepareSymbolReader_calls ::
  "(environment \<times> statics) list \<Rightarrow> statics \<Rightarrow> (failure + unit) list \<times> statics" where
  "PrepareSymbolReader_calls [] st = ([], st)"
| "PrepareSymbolReader_calls ((env, w) # rest) st =
     (case PrepareSymbolReader env (other_writes w st) of
        (r, st') \<Rightarrow>
          (case PrepareSymbolReader_calls rest st' of
             (rs, st'') \<Rightarrow> (r # rs, st'')))"

section \<open>Loading the symbols of a module\<close>

text \<open>\<open>const int SymbolReader::HiddenLine\<close>.\<close>

definition HiddenLine :: "32 word" where
  "HiddenLine = 0xfeefee"

text \<open>
  \<open>SymbolReader::LoadSymbolsForPortablePDB\<close>. The reader's handle is assigned whatever
  the delegate returns; a null handle is \<open>E_FAIL\<close>. The two sizes are cut to \<open>int\<close>.
\<close>

definition LoadSymbolsForPortablePDB ::
  "environment \<Rightarrow> statics \<Rightarrow> SymbolReader \<Rightarrow> string \<Rightarrow> bool \<Rightarrow> bool \<Rightarrow> 64 word \<Rightarrow> 64 word
     \<Rightarrow> 64 word \<Rightarrow> 64 word \<Rightarrow> (failure + unit) \<times> statics \<times> SymbolReader"
where
  "LoadSymbolsForPortablePDB env st sr modulePath isInMemory isFileLayout peAddress peSize
       inMemoryPdbAddress inMemoryPdbSize =
     (case (if loadSymbolsForModuleDelegate st = None then PrepareSymbolReader env st
            else (Inr (), st)) of
        (Inl e, st') \<Rightarrow> (Inl e, st', sr)
      | (Inr _, st') \<Rightarrow>
          (let szModuleName =
                 (if \<not> isInMemory \<and> modulePath \<noteq> [] then Some modulePath else None)
           in
           case loadSymbolsForModuleDelegate st' of
             None \<Rightarrow> (Inl NULL_CALL, st', sr)
           | Some dlg \<Rightarrow>
               (let sr' = sr\<lparr>m_symbolReaderHandle :=
                               dlg szModuleName isFileLayout peAddress (ucast peSize)
                                 inMemoryPdbAddress (ucast inMemoryPdbSize)\<rparr>
                in
                if m_symbolReaderHandle sr' = 0 then (Inl E_FAIL, st', sr')
                else (Inr (), st', sr'))))"

text \<open>
  \<open>SymbolReader::LoadSymbols\<close>. Only \<open>isDynamic\<close> is tested, under a comment that
  names dynamic and in-memory assemblies as the case to ignore; \<open>isInMemory\<close> is
  passed on, as the in-memory flag and as the file-layout flag.
\<close>

definition LoadSymbols ::
  "environment \<Rightarrow> statics \<Rightarrow> SymbolReader \<Rightarrow> IMetaDataImport \<Rightarrow> ICorDebugModule
     \<Rightarrow> (failure + unit) \<times> statics \<times> SymbolReader"
where
  "LoadSymbols env st sr pMD pModule =
     (case IsDynamic pModule of
        Inl e \<Rightarrow> (Inl e, st, sr)
      | Inr isDynamic \<Rightarrow>
     (case IsInMemory pModule of
        Inl e \<Rightarrow> (Inl e, st, sr)
      | Inr isInMemory \<Rightarrow>
          if isDynamic then (Inl E_FAIL, st, sr)
          else
            (case GetBaseAddress pModule of
               Inl e \<Rightarrow> (Inl e, st, sr)
             | Inr peAddress \<Rightarrow>
            (case GetSize pModule of
               Inl e \<Rightarrow> (Inl e, st, sr)
             | Inr peSize \<Rightarrow>
                 LoadSymbolsForPortablePDB env st sr (GetModuleFileName pModule)
                   isInMemory isInMemory peAddress (ucast peSize) 0 0))))"

section \<open>Registering a module\<close>

datatype SymbolStatus = SymbolsSkipped | SymbolsLoaded | SymbolsNotFound

text \<open>The \<open>Module\<close> structure the caller passes in to be filled.\<close>

record Module =
  id' :: string
  name :: string
  path :: string
  symbolStatus :: SymbolStatus
  baseAddress :: CORDB_ADDRESS
  size' :: "32 word"

text \<open>
  \<open>Modules::TryLoadModuleSymbols\<close>. It returns the status, the caller's \<open>module\<close> as
  far as it was filled, the statics (a load may run \<open>PrepareSymbolReader\<close>) and the
  registry. The status of \<open>LoadSymbols\<close> is dropped by the source; \<open>symbolStatus\<close> is
  read off the reader. The block that sets the just-my-code status acts on the target
  only and is left out. The result of \<open>insert\<close> is dropped by the source.
\<close>

definition TryLoadModuleSymbols ::
  "environment \<Rightarrow> statics \<Rightarrow> registry \<Rightarrow> ICorDebugModule \<Rightarrow> Module
     \<Rightarrow> (failure + unit) \<times> Module \<times> statics \<times> registry"
where
  "TryLoadModuleSymbols env st m_modulesInfo pModule module0 =
     (case GetMetaDataInterface pModule of
        Inl e \<Rightarrow> (Inl e, module0, st, m_modulesInfo)
      | Inr pMDUnknown \<Rightarrow>
     (case QueryInterface_IMetaDataImport pMDUnknown of
        Inl e \<Rightarrow> (Inl e, module0, st, m_modulesInfo)
      | Inr pMDImport \<Rightarrow>
     (let module1 = module0\<lparr>path := GetModuleFileName pModule\<rparr>;
          module2 = module1\<lparr>name := GetFileName env (path module1)\<rparr>;
          (st', symbolReader, module3) =
            (if ShouldLoadSymbolsForModule env (path module2) then
               (case LoadSymbols env st new_SymbolReader pMDImport pModule of
                  (r, st1, sr1) \<Rightarrow>
                    (st1, sr1,
                     module2\<lparr>symbolStatus :=
                               (if SymbolsLoaded' sr1 then SymbolsLoaded else SymbolsNotFound)\<rparr>))
             else (st, new_SymbolReader, module2\<lparr>symbolStatus := SymbolsSkipped\<rparr>))
      in
      case GetModuleId pModule of
        Inl e \<Rightarrow> (Inl e, module3, st', m_modulesInfo)
      | Inr mid \<Rightarrow>
     (let module4 = module3\<lparr>id' := mid\<rparr> in
      case GetBaseAddress pModule of
        Inl e \<Rightarrow> (Inl e, module4, st', m_modulesInfo)
      | Inr baseAddress' \<Rightarrow>
     (case GetSize pModule of
        Inl e \<Rightarrow> (Inl e, module4, st', m_modulesInfo)
      | Inr sz \<Rightarrow>
          (Inr (), module4\<lparr>baseAddress := baseAddress', size' := sz\<rparr>, st',
           registry_insert m_modulesInfo
             (baseAddress', \<lparr>symbols = symbolReader, module = pModule\<rparr>)))))))"


section \<open>The managed side of \<open>GetLineByILOffset\<close>\<close>

text \<open>
  Modelled from the spec: the managed entry point \<open>GetLineByILOffset\<close> of
  \<open>SOS.SymbolReader\<close>, to which the native delegate is bound, is not among the sources.
  The spec makes the operation fail if the line resolved for the offset equals the
  hidden-line marker, and the comment in the native function says that lines with the
  marker are filtered out on the managed side. \<open>resolve\<close> is the lookup of the line
  and file for an offset in the debug information, which the spec leaves to the
  provider.
\<close>

definition managed_GetLineByILOffset ::
  "(PVOID \<Rightarrow> mdMethodDef \<Rightarrow> 64 word \<Rightarrow> (32 word \<times> string) option) \<Rightarrow> GetLineByILOffsetDelegate"
where
  "managed_GetLineByILOffset resolve h methodToken ilOffset =
     (case resolve h methodToken ilOffset of
        None \<Rightarrow> None
      | Some (line, fileName) \<Rightarrow>
          if line = HiddenLine then None else Some (line, fileName))"

text \<open>
  What it is for \<open>GetLocationInAny\<close> to pass over a module: its base address can be
  read, and \<open>ResolveSequencePoint\<close> or, after it, \<open>GetLineByILOffset\<close> returns a failing
  status.
\<close>

definition provider_fails_on :: "statics \<Rightarrow> ModuleInfo \<Rightarrow> string \<Rightarrow> 32 word \<Rightarrow> bool" where
  "provider_fails_on st mdInfo filename linenum =
     (case GetBaseAddress (module mdInfo) of
        Inl e \<Rightarrow> False
      | Inr modAddress \<Rightarrow>
     (case ResolveSequencePoint st (symbols mdInfo) filename linenum modAddress of
        Inl e \<Rightarrow> e \<noteq> NULL_CALL
      | Inr (methodToken, ilOffset) \<Rightarrow>
     (case GetLineByILOffset st (symbols mdInfo) methodToken (ucast ilOffset) MAX_LONGPATH of
        Inl e \<Rightarrow> e \<noteq> NULL_CALL
      | Inr r \<Rightarrow> False)))"

section \<open>Concrete inputs\<close>

text \<open>
  A small debug session for the closed instances below: a method with sequence points
  at the offsets 0, 10 and 20, a managed side that knows the module
  \<open>/app/Program.dll\<close> (handle 1, with that method), the module \<open>/app/Lib.dll\<close>
  (handle 2, no sequence points, no matching line) and in-memory images (handle 7),
  and the target's objects for one frame.
\<close>

definition ex_point :: "32 word \<Rightarrow> 32 word \<Rightarrow> SequencePoint" where
  "ex_point off line =
     \<lparr>startLine = line, startColumn = 1, endLine = line, endColumn = 9, offset = off\<rparr>"

definition ex_points :: "SequencePoint list" where
  "ex_points = [ex_point 0 7, ex_point 10 8, ex_point 20 9]"

definition ex_env :: environment where
  "ex_env =
     \<lparr>FEATURE_PAL = True,
      DIRECTORY_SEPARATOR_STR_A = ''/'',
      DLOpen = (\<lambda>p. p = ''/usr/share/dotnet/libcoreclr.so''),
      DLSym = (\<lambda>s. True),
      SysAllocStringLen = (\<lambda>n. Some n),
      SysStringLen = (\<lambda>b. case b of None \<Rightarrow> 0 | Some n \<Rightarrow> n),
      AddFilesFromDirectoryToTpaList = (\<lambda>d. d @ ''/System.Private.CoreLib.dll''),
      GetExeAbsPath = ''/opt/netcoredbg/netcoredbg'',
      coreclr_initialize = (\<lambda>exe props. Inr ()),
      coreclr_create_delegate = (\<lambda>entry. Inr ()),
      SOS_LoadSymbolsForModule =
        (\<lambda>szModuleName isFileLayout peAddress peSize pdbAddress pdbSize.
           case szModuleName of
             None \<Rightarrow> if isFileLayout then 7 else 0
           | Some n \<Rightarrow>
               if n = ''/app/Program.dll'' then 1 else if n = ''/app/Lib.dll'' then 2 else 0),
      SOS_ResolveSequencePoint =
        (\<lambda>h file line. if h = 1 \<and> file = ''Program.cs'' then Some (100663297, 10) else None),
      SOS_GetLineByILOffset =
        (\<lambda>h tok off. if h = 1 \<or> h = 2 then Some (8, ''/src/Program.cs'') else None),
      SOS_GetStepRangesFromIP = (\<lambda>h ip tok. if ip = 5 then Some (5, 5) else Some (10, 20)),
      SOS_GetSequencePoints = (\<lambda>h tok. if h = 1 then Some ex_points else Some []),
      SOS_RegisterGetChild = True,
      ShouldLoadSymbolsForModule = (\<lambda>p. p \<noteq> ''/app/System.Runtime.dll''),
      GetFileName = (\<lambda>p. substr0 (rev p) (rfind (rev p) ''/''))\<rparr>"

text \<open>The statics of a fresh process, and those after a set-up that succeeded.\<close>

definition ex_fresh :: statics where
  "ex_fresh =
     \<lparr>coreClrPath = ''/usr/share/dotnet/libcoreclr.so'',
      attemptedSymbolReaderPreparation = False,
      loadSymbolsForModuleDelegate = None,
      disposeDelegate = False,
      resolveSequencePointDelegate = None,
      getLocalVariableNameAndScopeDelegate = False,
      getLineByILOffsetDelegate = None,
      getStepRangesFromIPDelegate = None,
      getSequencePointsDelegate = None,
      parseExpressionDelegate = False,
      evalExpressionDelegate = False,
      registerGetChildDelegate = None,
      sysAllocStringLen = None,
      sysFreeString = False,
      sysStringLen = None,
      coTaskMemAlloc = False,
      coTaskMemFree = False,
      preparations = 0\<rparr>"

definition ex_statics :: statics where
  "ex_statics =
     \<lparr>coreClrPath = ''/usr/share/dotnet/libcoreclr.so'',
      attemptedSymbolReaderPreparation = True,
      loadSymbolsForModuleDelegate = Some (SOS_LoadSymbolsForModule ex_env),
      disposeDelegate = True,
      resolveSequencePointDelegate = Some (SOS_ResolveSequencePoint ex_env),
      getLocalVariableNameAndScopeDelegate = True,
      getLineByILOffsetDelegate = Some (SOS_GetLineByILOffset ex_env),
      getStepRangesFromIPDelegate = Some (SOS_GetStepRangesFromIP ex_env),
      getSequencePointsDelegate = Some (SOS_GetSequencePoints ex_env),
      parseExpressionDelegate = True,
      evalExpressionDelegate = True,
      registerGetChildDelegate = Some True,
      sysAllocStringLen = Some (SysAllocStringLen ex_env),
      sysFreeString = True,
      sysStringLen = Some (SysStringLen ex_env),
      coTaskMemAlloc = True,
      coTaskMemFree = True,
      preparations = 1\<rparr>"

definition ex_guid :: GUID where
  "ex_guid =
     \<lparr>Data1 = 0x1a2b3c, Data2 = 0x4d5e, Data3 = 0xf,
      Data4 = [0, 1, 0xab, 0xcd, 0xef, 2, 3, 0xff]\<rparr>"

definition ex_unknown :: IUnknown where
  "ex_unknown = \<lparr>QueryInterface_IMetaDataImport = Inr \<lparr>GetScopeProps = Inr ex_guid\<rparr>\<rparr>"

definition ex_module :: "string \<Rightarrow> CORDB_ADDRESS \<Rightarrow> ICorDebugModule" where
  "ex_module file a =
     \<lparr>GetName = Inr file,
      GetProcess = Inr \<lparr>GetID = Inr 4242\<rparr>,
      GetBaseAddress = Inr a,
      GetSize = Inr 8192,
      IsDynamic = Inr False,
      IsInMemory = Inr False,
      GetMetaDataInterface = Inr ex_unknown\<rparr>"

definition ex_function :: ICorDebugFunction where
  "ex_function =
     \<lparr>GetModule = Inr (ex_module ''/app/Program.dll'' 4096),
      GetILCode = Inr \<lparr>Code_GetSize = Inr 64\<rparr>\<rparr>"

definition ex_frame :: "32 word \<Rightarrow> ICorDebugFrame" where
  "ex_frame ip =
     \<lparr>GetFunctionToken = Inr 100663297,
      GetFunction = Inr ex_function,
      QueryInterface_ICorDebugILFrame = Inr \<lparr>GetIP = Inr ip\<rparr>\<rparr>"

definition ex_info :: "PVOID \<Rightarrow> string \<Rightarrow> CORDB_ADDRESS \<Rightarrow> ModuleInfo" where
  "ex_info h file a = \<lparr>symbols = \<lparr>m_symbolReaderHandle = h\<rparr>, module = ex_module file a\<rparr>"

definition ex_registry :: registry where
  "ex_registry = [(4096, ex_info 1 ''/app/Program.dll'' 4096)]"

definition ex_sequencePoint :: Modules_SequencePoint where
  "ex_sequencePoint =
     \<lparr>startLine = 0, startColumn = 0, endLine = 0, endColumn = 0, offset = 0, document = []\<rparr>"

text \<open>
  A module that has been unloaded since it was registered, so that its base address can
  no longer be read (the status is \<open>CORDBG_E_OBJECT_NEUTERED\<close>, \<open>0x8013134F\<close>), and a
  registry holding it before the module that has the line.
\<close>

definition ex_gone :: ICorDebugModule where
  "ex_gone = (ex_module ''/app/Lib.dll'' 8192)\<lparr>GetBaseAddress := Inl (E_CALLEE (- 2146233521))\<rparr>"

definition ex_registry_gone :: registry where
  "ex_registry_gone =
     [(8192, \<lparr>symbols = \<lparr>m_symbolReaderHandle = 2\<rparr>, module = ex_gone\<rparr>),
      (4096, ex_info 1 ''/app/Program.dll'' 4096)]"

definition ex_location :: Location where
  "ex_location =
     \<lparr>loc_ilOffset = 10, loc_methodToken = 100663297, loc_fullname = ''/src/Program.cs'',
      loc_ppModule = ex_module ''/app/Program.dll'' 4096\<rparr>"

text \<open>
  Debug information in which offset 3 of the method maps to a hidden line and the other
  offsets to line 8, and statics whose delegate is the managed entry point over it.
\<close>

definition ex_resolve :: "PVOID \<Rightarrow> mdMethodDef \<Rightarrow> 64 word \<Rightarrow> (32 word \<times> string) option" where
  "ex_resolve h methodToken ilOffset =
     (if ilOffset = 3 then Some (HiddenLine, ''/src/Program.cs'')
      else Some (8, ''/src/Program.cs''))"

definition ex_statics_managed :: statics where
  "ex_statics_managed =
     ex_statics\<lparr>getLineByILOffsetDelegate := Some (managed_GetLineByILOffset ex_resolve)\<rparr>"

text \<open>
  The caller's \<open>Module\<close> before the call; a module whose size cannot be read (the
  status is \<open>CORDBG_E_PROCESS_TERMINATED\<close>, \<open>0x80131301\<close>); an in-memory module that
  is not dynamic; and a dynamic module.
\<close>

definition ex_module0 :: Module where
  "ex_module0 =
     \<lparr>id' = [], name = [], path = [], symbolStatus = SymbolsSkipped, baseAddress = 0, size' = 0\<rparr>"

definition ex_nosize :: ICorDebugModule where
  "ex_nosize = (ex_module ''/app/Lib.dll'' 8192)\<lparr>GetSize := Inl (E_CALLEE (- 2146233599))\<rparr>"

definition ex_inmemory :: ICorDebugModule where
  "ex_inmemory = (ex_module ''Generated'' 12288)\<lparr>IsInMemory := Inr True\<rparr>"

definition ex_dynamic :: ICorDebugModule where
  "ex_dynamic = (ex_module ''RefEmit_InMemoryManifestModule'' 16384)
                  \<lparr>IsDynamic := Inr True, IsInMemory := Inr True\<rparr>"

section \<open>The scan for the nearest sequence point\<close>

lemma nearest_scan_hd:
  "points \<noteq> [] \<Longrightarrow> i \<le> length points \<Longrightarrow>
     hd (nearest_scan points i q) = nearest_from (hd points) (drop i points) q"
proof (induction points i q rule: nearest_scan.induct)
  case (1 points i ilOffset)
  show ?case
  proof (cases "i < length points")
    case False
    with 1 show ?thesis by (simp add: nearest_scan.simps)
  next
    case True
    let ?p = "points ! i"
    have d: "drop i points = ?p # drop (Suc i) points"
      using True by (simp add: Cons_nth_drop_Suc)
    have h: "hd (points[0 := ?p]) = ?p"
      using "1.prems" by (cases points) simp_all
    show ?thesis
    proof (cases "offset ?p <s ilOffset")
      case lt: True
      have "hd (nearest_scan (points[0 := ?p]) (Suc i) ilOffset) =
              nearest_from (hd (points[0 := ?p])) (drop (Suc i) (points[0 := ?p])) ilOffset"
        using "1.IH" [OF True refl lt] True "1.prems" by simp
      moreover have "drop (Suc i) (points[0 := ?p]) = drop (Suc i) points"
        by simp
      ultimately show ?thesis
        using True lt d h by (subst nearest_scan.simps) simp
    next
      case ge: False
      show ?thesis
        using True ge d h by (subst nearest_scan.simps) (simp add: Let_def)
    qed
  qed
qed

lemma nearest_from_sorted:
  "sorted_wrt (\<lambda>a b. offset a \<le>s offset b) ps \<Longrightarrow>
   nearest_from cur ps q =
     (case find (\<lambda>p. offset p = q) ps of
        Some p \<Rightarrow> p
      | None \<Rightarrow>
          if filter (\<lambda>p. offset p <s q) ps = [] then cur
          else last (filter (\<lambda>p. offset p <s q) ps))"
proof (induction ps arbitrary: cur)
  case Nil
  then show ?case by simp
next
  case (Cons p ps)
  have sorted: "sorted_wrt (\<lambda>a b. offset a \<le>s offset b) ps"
    and le: "\<forall>x\<in>set ps. offset p \<le>s offset x"
    using Cons.prems by simp_all
  show ?case
  proof (cases "offset p <s q")
    case True
    then have ne: "offset p \<noteq> q" by auto
    show ?thesis
      using True ne Cons.IH [OF sorted, of p] by (simp split: option.splits)
  next
    case False
    have rest: "\<forall>x\<in>set ps. \<not> offset x <s q"
      using le False by (meson signed.le_less_trans)
    then have f: "filter (\<lambda>p. offset p <s q) ps = []"
      by (simp add: filter_empty_conv)
    show ?thesis
    proof (cases "offset p = q")
      case True
      then show ?thesis using False by simp
    next
      case ne: False
      have "\<forall>x\<in>set ps. offset x \<noteq> q"
      proof
        fix x assume "x \<in> set ps"
        then have "offset p \<le>s offset x" using le by simp
        with False ne show "offset x \<noteq> q"
          by (auto simp: signed.le_less)
      qed
      then have "find (\<lambda>p. offset p = q) ps = None"
        by (simp add: find_None_iff)
      then show ?thesis using False ne f by simp
    qed
  qed
qed

lemma nearest_scan_spec:
  assumes "points \<noteq> []" "sorted_wrt (\<lambda>a b. offset a \<le>s offset b) points"
  shows "hd (nearest_scan points 0 q) = spec_nearest_point points q"
  using nearest_scan_hd [OF assms(1), of 0 q] nearest_from_sorted [OF assms(2), of "hd points" q]
  by (simp add: spec_nearest_point_def)

lemma spec_nearest_point_exact:
  "\<exists>p\<in>set points. offset p = q \<Longrightarrow>
     spec_nearest_point points q \<in> set points \<and> offset (spec_nearest_point points q) = q"
proof -
  assume "\<exists>p\<in>set points. offset p = q"
  then obtain r where r: "find (\<lambda>p. offset p = q) points = Some r"
    by (cases "find (\<lambda>p. offset p = q) points") (auto simp: find_None_iff)
  then have "r \<in> set points \<and> offset r = q"
    by (auto simp: find_Some_iff)
  then show ?thesis
    using r by (simp add: spec_nearest_point_def)
qed

lemma spec_nearest_point_before:
  assumes "\<forall>p\<in>set points. offset p \<noteq> q" and "\<exists>p\<in>set points. offset p <s q"
  shows "spec_nearest_point points q = last (filter (\<lambda>p. offset p <s q) points)"
proof -
  have "find (\<lambda>p. offset p = q) points = None"
    using assms(1) by (simp add: find_None_iff)
  moreover have "filter (\<lambda>p. offset p <s q) points \<noteq> []"
    using assms(2) by (simp add: filter_empty_conv)
  ultimately show ?thesis
    by (simp add: spec_nearest_point_def)
qed

lemma spec_nearest_point_fallback:
  assumes "\<forall>p\<in>set points. \<not> offset p \<le>s q"
  shows "spec_nearest_point points q = hd points"
proof -
  have "\<forall>p\<in>set points. offset p \<noteq> q \<and> \<not> offset p <s q"
    using assms by (auto simp: signed.le_less)
  then have "find (\<lambda>p. offset p = q) points = None"
    and "filter (\<lambda>p. offset p <s q) points = []"
    by (simp_all add: find_None_iff filter_empty_conv)
  then show ?thesis
    by (simp add: spec_nearest_point_def)
qed

lemmas ex_defs = ex_statics_def ex_env_def ex_registry_def ex_frame_def ex_function_def
  ex_module_def ex_info_def ex_unknown_def ex_points_def ex_point_def ex_sequencePoint_def
  registry_find_def GetLineByILOffset_def wcscpy_s_def GetSequencePoints_def MAX_LONGPATH_def

text \<open>
  C1. When the calls on the frame succeed and the provider hands back a non-empty table
  ordered by ascending (signed) offset, \<open>GetFrameILAndSequencePoint\<close> returns \<open>S_OK\<close>,
  the frame's offset, and the lines, columns and offset of the point the spec's rule
  selects: the point at exactly the query offset if there is one, else the last point
  strictly before it, else the first point of the table. The document is the file name
  \<open>GetLineByILOffset\<close> gave.
\<close>

theorem GetFrameILAndSequencePoint_nearest:
  assumes "GetFunctionToken pFrame = Inr methodToken"
    and "GetFunction pFrame = Inr pFunc"
    and "GetModule pFunc = Inr pModule"
    and "GetMetaDataInterface pModule = Inr pMDUnknown"
    and "QueryInterface_ICorDebugILFrame pFrame = Inr pILFrame"
    and "GetIP pILFrame = Inr q"
    and "GetBaseAddress pModule = Inr modAddress"
    and "registry_find m_modulesInfo modAddress = Some info"
    and "GetLineByILOffset st (symbols info) methodToken (ucast q) MAX_LONGPATH = Inr (linenum, fileName)"
    and "GetSequencePoints st (symbols info) methodToken = Inr points"
    and "points \<noteq> []"
    and "sorted_wrt (\<lambda>a b. offset a \<le>s offset b) points"
  shows "GetFrameILAndSequencePoint st m_modulesInfo pFrame ilOffset sequencePoint =
           (Inr (), q,
            sequencePoint\<lparr>startLine := startLine (spec_nearest_point points q),
                           endLine := endLine (spec_nearest_point points q),
                           startColumn := startColumn (spec_nearest_point points q),
                           endColumn := endColumn (spec_nearest_point points q),
                           offset := offset (spec_nearest_point points q),
                           document := to_utf8 fileName\<rparr>)"
proof -
  have "hd (nearest_scan points 0 q) = spec_nearest_point points q"
    using assms(11,12) by (rule nearest_scan_spec)
  then show ?thesis
    using assms(1-11) by (simp add: GetFrameILAndSequencePoint_def Let_def)
qed

text \<open>
  The instance of the spec's example: points at 0, 10 and 20 and a frame at offset 15
  give the point at 10.
\<close>

theorem GetFrameILAndSequencePoint_nearest_witness:
  "GetFrameILAndSequencePoint ex_statics ex_registry (ex_frame 15) 0 ex_sequencePoint =
     (Inr (), 15,
      \<lparr>startLine = 8, startColumn = 1, endLine = 8, endColumn = 9, offset = 10,
       document = ''/src/Program.cs''\<rparr>)"
proof -
  have "GetFrameILAndSequencePoint ex_statics ex_registry (ex_frame 15) 0 ex_sequencePoint =
          (Inr (), 15,
           ex_sequencePoint\<lparr>startLine := startLine (spec_nearest_point ex_points 15),
                           endLine := endLine (spec_nearest_point ex_points 15),
                           startColumn := startColumn (spec_nearest_point ex_points 15),
                           endColumn := endColumn (spec_nearest_point ex_points 15),
                           offset := offset (spec_nearest_point ex_points 15),
                           document := to_utf8 ''/src/Program.cs''\<rparr>)"
    by (rule GetFrameILAndSequencePoint_nearest
          [where methodToken = 100663297 and pFunc = ex_function
             and pModule = "ex_module ''/app/Program.dll'' 4096"
             and pMDUnknown = ex_unknown and pILFrame = "\<lparr>GetIP = Inr 15\<rparr>"
             and modAddress = 4096 and info = "ex_info 1 ''/app/Program.dll'' 4096"
             and linenum = 8])
       (simp_all add: ex_defs word_sle_eq)
  then show ?thesis
    by (simp add: spec_nearest_point_def ex_defs to_utf8_def word_sless_alt)
qed

text \<open>
  The other two cases of the spec's example, evaluated: a frame at offset 10 gets the
  point at 10, and a frame whose offset reads as -1 gets the first point.
\<close>

lemma GetFrameILAndSequencePoint_exact_example:
  "GetFrameILAndSequencePoint ex_statics ex_registry (ex_frame 10) 0 ex_sequencePoint =
     (Inr (), 10,
      \<lparr>startLine = 8, startColumn = 1, endLine = 8, endColumn = 9, offset = 10,
       document = ''/src/Program.cs''\<rparr>)"
  by (simp add: GetFrameILAndSequencePoint_def ex_defs to_utf8_def nearest_scan.simps
        word_sless_alt Let_def)

lemma GetFrameILAndSequencePoint_fallback_example:
  "GetFrameILAndSequencePoint ex_statics ex_registry (ex_frame (- 1)) 0 ex_sequencePoint =
     (Inr (), - 1,
      \<lparr>startLine = 7, startColumn = 1, endLine = 7, endColumn = 9, offset = 0,
       document = ''/src/Program.cs''\<rparr>)"
  by (simp add: GetFrameILAndSequencePoint_def ex_defs to_utf8_def nearest_scan.simps
        word_sless_alt Let_def)

text \<open>
  C10. When the provider hands back an empty table, \<open>GetFrameILAndSequencePoint\<close>
  returns \<open>E_FAIL\<close> and the caller's sequence point is as it was passed in: there is no
  fallback result for an empty table.
\<close>

theorem GetFrameILAndSequencePoint_empty_table:
  assumes "GetFunctionToken pFrame = Inr methodToken"
    and "GetFunction pFrame = Inr pFunc"
    and "GetModule pFunc = Inr pModule"
    and "GetMetaDataInterface pModule = Inr pMDUnknown"
    and "QueryInterface_ICorDebugILFrame pFrame = Inr pILFrame"
    and "GetIP pILFrame = Inr q"
    and "GetBaseAddress pModule = Inr modAddress"
    and "registry_find m_modulesInfo modAddress = Some info"
    and "GetLineByILOffset st (symbols info) methodToken (ucast q) MAX_LONGPATH = Inr (linenum, fileName)"
    and "GetSequencePoints st (symbols info) methodToken = Inr []"
  shows "GetFrameILAndSequencePoint st m_modulesInfo pFrame ilOffset sequencePoint =
           (Inl E_FAIL, q, sequencePoint)"
  using assms by (simp add: GetFrameILAndSequencePoint_def)

theorem GetFrameILAndSequencePoint_empty_table_witness:
  "GetFrameILAndSequencePoint ex_statics [(4096, ex_info 2 ''/app/Lib.dll'' 4096)]
       (ex_frame 15) 0 ex_sequencePoint =
     (Inl E_FAIL, 15, ex_sequencePoint)"
  by (rule GetFrameILAndSequencePoint_empty_table
        [where methodToken = 100663297 and pFunc = ex_function
           and pModule = "ex_module ''/app/Program.dll'' 4096"
           and pMDUnknown = ex_unknown and pILFrame = "\<lparr>GetIP = Inr 15\<rparr>"
           and modAddress = 4096 and info = "ex_info 2 ''/app/Lib.dll'' 4096" and linenum = 8
           and fileName = "''/src/Program.cs''"])
     (simp_all add: ex_defs)

section \<open>The step range\<close>

text \<open>
  C2. When the calls on the thread's active frame succeed and the provider returns the
  range \<open>(s, e)\<close> for the frame's offset: if \<open>s = e\<close>, a returned range has
  \<open>startOffset = s\<close> and \<open>endOffset\<close> the size of the method's IL code, and it is
  returned whenever that size can be read; if \<open>s \<noteq> e\<close>, the provider's range is
  returned unchanged.
\<close>

theorem GetStepRangeFromCurrentIP_widens:
  assumes "GetActiveFrame pThread = Inr (Some pFrame)"
    and "GetFunctionToken pFrame = Inr methodToken"
    and "GetFunction pFrame = Inr pFunc"
    and "GetModule pFunc = Inr pModule"
    and "QueryInterface_ICorDebugILFrame pFrame = Inr pILFrame"
    and "GetIP pILFrame = Inr nOffset"
    and "GetBaseAddress pModule = Inr modAddress"
    and "registry_find m_modulesInfo modAddress = Some info"
    and "GetStepRangesFromIP st (symbols info) nOffset methodToken = Inr (s, e)"
  shows "(s \<noteq> e \<longrightarrow>
            GetStepRangeFromCurrentIP st m_modulesInfo pThread =
              Inr \<lparr>startOffset = s, endOffset = e\<rparr>) \<and>
         (s = e \<longrightarrow>
            (\<forall>pCode codeSize.
               GetILCode pFunc = Inr pCode \<and> Code_GetSize pCode = Inr codeSize \<longrightarrow>
                 GetStepRangeFromCurrentIP st m_modulesInfo pThread =
                   Inr \<lparr>startOffset = s, endOffset = codeSize\<rparr>) \<and>
            (\<forall>range.
               GetStepRangeFromCurrentIP st m_modulesInfo pThread = Inr range \<longrightarrow>
                 startOffset range = s \<and>
                 (\<exists>pCode. GetILCode pFunc = Inr pCode \<and>
                           Code_GetSize pCode = Inr (endOffset range))))"
  using assms
  by (auto simp: GetStepRangeFromCurrentIP_def split: sum.splits)

text \<open>
  The instance of the spec's example: the provider's range \<open>[5, 5)\<close> in a method of 64
  bytes of IL becomes \<open>[5, 64)\<close>; at another offset the provider's \<open>[10, 20)\<close> is kept.
\<close>

theorem GetStepRangeFromCurrentIP_widens_witness:
  "GetStepRangeFromCurrentIP ex_statics ex_registry \<lparr>GetActiveFrame = Inr (Some (ex_frame 5))\<rparr> =
     Inr \<lparr>startOffset = 5, endOffset = 64\<rparr> \<and>
   GetStepRangeFromCurrentIP ex_statics ex_registry \<lparr>GetActiveFrame = Inr (Some (ex_frame 12))\<rparr> =
     Inr \<lparr>startOffset = 10, endOffset = 20\<rparr>"
proof -
  have a: "GetStepRangesFromIP ex_statics (symbols (ex_info 1 ''/app/Program.dll'' 4096)) 5 100663297
             = Inr (5, 5)"
    by (simp add: GetStepRangesFromIP_def ex_defs)
  have b: "GetStepRangesFromIP ex_statics (symbols (ex_info 1 ''/app/Program.dll'' 4096)) 12 100663297
             = Inr (10, 20)"
    by (simp add: GetStepRangesFromIP_def ex_defs)
  have "GetStepRangeFromCurrentIP ex_statics ex_registry \<lparr>GetActiveFrame = Inr (Some (ex_frame 5))\<rparr> =
          Inr \<lparr>startOffset = 5, endOffset = 64\<rparr>"
    using GetStepRangeFromCurrentIP_widens
      [where pThread = "\<lparr>GetActiveFrame = Inr (Some (ex_frame 5))\<rparr>" and pFrame = "ex_frame 5"
         and methodToken = 100663297 and pFunc = ex_function
         and pModule = "ex_module ''/app/Program.dll'' 4096"
         and pILFrame = "\<lparr>GetIP = Inr 5\<rparr>" and nOffset = 5 and modAddress = 4096
         and m_modulesInfo = ex_registry and info = "ex_info 1 ''/app/Program.dll'' 4096"
         and st = ex_statics and s = 5 and e = 5, OF _ _ _ _ _ _ _ _ a]
    by (simp add: ex_defs)
  moreover
  have "GetStepRangeFromCurrentIP ex_statics ex_registry \<lparr>GetActiveFrame = Inr (Some (ex_frame 12))\<rparr> =
          Inr \<lparr>startOffset = 10, endOffset = 20\<rparr>"
    using GetStepRangeFromCurrentIP_widens
      [where pThread = "\<lparr>GetActiveFrame = Inr (Some (ex_frame 12))\<rparr>" and pFrame = "ex_frame 12"
         and methodToken = 100663297 and pFunc = ex_function
         and pModule = "ex_module ''/app/Program.dll'' 4096"
         and pILFrame = "\<lparr>GetIP = Inr 12\<rparr>" and nOffset = 12 and modAddress = 4096
         and m_modulesInfo = ex_registry and info = "ex_info 1 ''/app/Program.dll'' 4096"
         and st = ex_statics and s = 10 and e = 20, OF _ _ _ _ _ _ _ _ b]
    by (simp add: ex_defs)
  ultimately show ?thesis by simp
qed

section \<open>Resolution in any module\<close>

lemma GetLocationInAny_skip:
  assumes "provider_fails_on st (snd info_pair) filename linenum"
  shows "GetLocationInAny st (info_pair # rest) filename linenum =
           GetLocationInAny st rest filename linenum"
  using assms
  by (auto simp: provider_fails_on_def Let_def split: sum.splits failure.splits)

text \<open>
  C3, as the code has it. \<open>GetLocationInAny\<close> walks the registry in its iteration
  order. Suppose every module before some module \<open>mdInfo\<close> is passed over (its base
  address is read and one of the two provider calls returns a failing status). If on
  \<open>mdInfo\<close> the base address is read and both provider calls succeed, the call
  returns the resolution of \<open>mdInfo\<close>: the failures of the provider on the earlier
  modules do not fail the call. If the base address of \<open>mdInfo\<close> cannot be read, the
  call returns that failure, whatever the modules after it would resolve.
\<close>

theorem GetLocationInAny_first_success:
  assumes "\<forall>x\<in>set pre. provider_fails_on st (snd x) filename linenum"
  shows "(\<forall>modAddress methodToken ilOffset resolvedLinenum wFilename.
            GetBaseAddress (module mdInfo) = Inr modAddress \<and>
            ResolveSequencePoint st (symbols mdInfo) filename linenum modAddress =
              Inr (methodToken, ilOffset) \<and>
            GetLineByILOffset st (symbols mdInfo) methodToken (ucast ilOffset) MAX_LONGPATH =
              Inr (resolvedLinenum, wFilename) \<longrightarrow>
              GetLocationInAny st (pre @ (k, mdInfo) # post) filename linenum =
                Inr \<lparr>loc_ilOffset = ilOffset, loc_methodToken = methodToken,
                     loc_fullname = to_utf8 wFilename, loc_ppModule = module mdInfo\<rparr>) \<and>
         (\<forall>e. GetBaseAddress (module mdInfo) = Inl e \<longrightarrow>
              GetLocationInAny st (pre @ (k, mdInfo) # post) filename linenum = Inl e)"
proof -
  have skip: "GetLocationInAny st (pre @ rest) filename linenum =
                GetLocationInAny st rest filename linenum" for rest
    using assms
    by (induction pre) (simp_all add: GetLocationInAny_skip del: GetLocationInAny.simps)
  show ?thesis
    unfolding skip by (auto simp: Let_def)
qed

text \<open>
  Two companions: a registry in which every module is passed over gives \<open>E_FAIL\<close>,
  and a module registered without symbols (null handle) is passed over when its base
  address can be read.
\<close>

lemma GetLocationInAny_none:
  "\<forall>x\<in>set m. provider_fails_on st (snd x) filename linenum \<Longrightarrow>
     GetLocationInAny st m filename linenum = Inl E_FAIL"
proof (induction m)
  case Nil
  show ?case by simp
next
  case (Cons x m)
  then show ?case
    by (simp add: GetLocationInAny_skip del: GetLocationInAny.simps)
qed

lemma provider_fails_on_no_symbols:
  "m_symbolReaderHandle (symbols mdInfo) = 0 \<Longrightarrow> GetBaseAddress (module mdInfo) = Inr a \<Longrightarrow>
     provider_fails_on st mdInfo filename linenum"
  by (simp add: provider_fails_on_def ResolveSequencePoint_def)

text \<open>
  The instance of the spec's example: two modules, only the second has the line; the
  call returns the second module's resolution.
\<close>

theorem GetLocationInAny_first_success_witness:
  "GetLocationInAny ex_statics
       [(8192, ex_info 2 ''/app/Lib.dll'' 8192), (4096, ex_info 1 ''/app/Program.dll'' 4096)]
       ''Program.cs'' 8 =
     Inr ex_location"
proof -
  have pre: "\<forall>x\<in>set [(8192, ex_info 2 ''/app/Lib.dll'' 8192)].
               provider_fails_on ex_statics (snd x) ''Program.cs'' 8"
    by (simp add: provider_fails_on_def ResolveSequencePoint_def ex_defs)
  have calls:
    "GetBaseAddress (module (ex_info 1 ''/app/Program.dll'' 4096)) = Inr 4096 \<and>
     ResolveSequencePoint ex_statics (symbols (ex_info 1 ''/app/Program.dll'' 4096))
       ''Program.cs'' 8 4096 = Inr (100663297, 10) \<and>
     GetLineByILOffset ex_statics (symbols (ex_info 1 ''/app/Program.dll'' 4096)) 100663297
       (ucast (10 :: 32 word)) MAX_LONGPATH = Inr (8, ''/src/Program.cs'')"
    by (simp add: ResolveSequencePoint_def ex_defs)
  have "GetLocationInAny ex_statics
          ([(8192, ex_info 2 ''/app/Lib.dll'' 8192)] @
           (4096, ex_info 1 ''/app/Program.dll'' 4096) # [])
          ''Program.cs'' 8 =
        Inr \<lparr>loc_ilOffset = 10, loc_methodToken = 100663297,
             loc_fullname = to_utf8 ''/src/Program.cs'',
             loc_ppModule = module (ex_info 1 ''/app/Program.dll'' 4096)\<rparr>"
    using GetLocationInAny_first_success [OF pre] calls by blast
  then show ?thesis
    by (simp add: ex_location_def to_utf8_def ex_info_def)
qed

text \<open>
  C3 as stated fails: a module whose base address cannot be read ends the walk with that
  status, although the next module has the line (and resolves it when it stands alone).
\<close>

theorem GetLocationInAny_abort_counterexample:
  "GetLocationInAny ex_statics ex_registry_gone ''Program.cs'' 8 = Inl (E_CALLEE (- 2146233521)) \<and>
   GetLocationInAny ex_statics (tl ex_registry_gone) ''Program.cs'' 8 = Inr ex_location"
  by (simp add: ex_registry_gone_def ex_gone_def ex_location_def ResolveSequencePoint_def
        ex_defs to_utf8_def Let_def)

section \<open>The latch of the set-up\<close>

lemma bind_allocators_latch:
  "attemptedSymbolReaderPreparation (bind_allocators env st) = attemptedSymbolReaderPreparation st"
  "preparations (bind_allocators env st) = preparations st"
  by (simp_all add: bind_allocators_def)

lemma create_delegates_latch:
  "attemptedSymbolReaderPreparation (snd (create_delegates env st)) =
     attemptedSymbolReaderPreparation st"
  "preparations (snd (create_delegates env st)) = preparations st"
  by (simp_all add: create_delegates_def Let_def split: sum.splits)

lemma PrepareSymbolReader_latched:
  "attemptedSymbolReaderPreparation st \<Longrightarrow> PrepareSymbolReader env st = (Inl E_FAIL, st)"
  by (simp add: PrepareSymbolReader_def)

lemma PrepareSymbolReader_sets_latch:
  "attemptedSymbolReaderPreparation (snd (PrepareSymbolReader env st))"
  by (simp add: PrepareSymbolReader_def Let_def bind_allocators_latch create_delegates_latch
        split: option.splits sum.splits)

lemma PrepareSymbolReader_preparations:
  "preparations (snd (PrepareSymbolReader env st)) =
     (if attemptedSymbolReaderPreparation st then preparations st else Suc (preparations st))"
  by (simp add: PrepareSymbolReader_def Let_def bind_allocators_latch create_delegates_latch
        split: option.splits sum.splits)

lemma other_writes_latch:
  "attemptedSymbolReaderPreparation (other_writes w st) = attemptedSymbolReaderPreparation st"
  "preparations (other_writes w st) = preparations st"
  by (simp_all add: other_writes_def)

lemma PrepareSymbolReader_calls_latched:
  "attemptedSymbolReaderPreparation st \<Longrightarrow>
     fst (PrepareSymbolReader_calls calls st) = replicate (length calls) (Inl E_FAIL) \<and>
     attemptedSymbolReaderPreparation (snd (PrepareSymbolReader_calls calls st)) \<and>
     preparations (snd (PrepareSymbolReader_calls calls st)) = preparations st"
proof (induction calls arbitrary: st)
  case Nil
  then show ?case by simp
next
  case (Cons c calls)
  obtain env w where c: "c = (env, w)" by (cases c)
  have l: "attemptedSymbolReaderPreparation (other_writes w st)"
    using Cons.prems by (simp add: other_writes_latch)
  have "PrepareSymbolReader env (other_writes w st) = (Inl E_FAIL, other_writes w st)"
    using l by (rule PrepareSymbolReader_latched)
  then show ?case
    using Cons.IH [OF l] c by (simp add: other_writes_latch case_prod_beta)
qed

text \<open>
  C5. In any run of calls of \<open>PrepareSymbolReader\<close>, whatever the environment of each
  call, whatever the rest of the program wrote to the other statics in between and
  whatever the first call returned: every call after the first returns \<open>E_FAIL\<close>, and
  control passes the latch into the initialization work at most once (exactly once from
  a process in which the latch is clear). A call that finds the latch set returns with
  the statics as it found them (lemma \<open>PrepareSymbolReader_latched\<close>), so a failed
  first attempt is not tried again.
\<close>

theorem PrepareSymbolReader_attempted_once:
  "fst (PrepareSymbolReader_calls ((env, w) # calls) st) =
     fst (PrepareSymbolReader env (other_writes w st)) # replicate (length calls) (Inl E_FAIL) \<and>
   attemptedSymbolReaderPreparation (snd (PrepareSymbolReader_calls ((env, w) # calls) st)) \<and>
   preparations (snd (PrepareSymbolReader_calls ((env, w) # calls) st)) =
     (if attemptedSymbolReaderPreparation st then preparations st else Suc (preparations st))"
proof -
  obtain r st' where first: "PrepareSymbolReader env (other_writes w st) = (r, st')"
    by (cases "PrepareSymbolReader env (other_writes w st)")
  have "attemptedSymbolReaderPreparation st'"
    using PrepareSymbolReader_sets_latch [of env "other_writes w st"] first by simp
  then have "fst (PrepareSymbolReader_calls calls st') = replicate (length calls) (Inl E_FAIL) \<and>
             attemptedSymbolReaderPreparation (snd (PrepareSymbolReader_calls calls st')) \<and>
             preparations (snd (PrepareSymbolReader_calls calls st')) = preparations st'"
    by (rule PrepareSymbolReader_calls_latched)
  moreover have "preparations st' =
      (if attemptedSymbolReaderPreparation st then preparations st else Suc (preparations st))"
    using PrepareSymbolReader_preparations [of env "other_writes w st"] first
    by (simp add: other_writes_latch)
  ultimately show ?thesis
    using first by (simp add: case_prod_beta)
qed

text \<open>
  Two runs from a fresh process: a set-up that succeeds, and one that fails because the
  runtime library cannot be opened. In both the second and third call return \<open>E_FAIL\<close>
  and the work was entered once; after the failure, the later calls do not retry even
  though the library could by then be opened.
\<close>

lemma PrepareSymbolReader_success_example:
  "PrepareSymbolReader ex_env ex_fresh = (Inr (), ex_statics)"
  by (simp add: PrepareSymbolReader_def create_delegates_def bind_allocators_def rfind_def
        substr0_def ex_env_def ex_fresh_def ex_statics_def Let_def)

lemma other_writes_same: "other_writes st st = st"
  by (simp add: other_writes_def)

lemma PrepareSymbolReader_calls_example:
  "PrepareSymbolReader_calls [(ex_env, ex_fresh), (ex_env, ex_statics), (ex_env, ex_statics)]
       ex_fresh =
     ([Inr (), Inl E_FAIL, Inl E_FAIL], ex_statics)"
proof -
  have "attemptedSymbolReaderPreparation ex_statics"
    by (simp add: ex_statics_def)
  then have "PrepareSymbolReader ex_env ex_statics = (Inl E_FAIL, ex_statics)"
    by (rule PrepareSymbolReader_latched)
  then show ?thesis
    by (simp add: PrepareSymbolReader_success_example other_writes_same)
qed

lemma PrepareSymbolReader_never_retried_example:
  "fst (PrepareSymbolReader_calls
          [(ex_env\<lparr>DLOpen := (\<lambda>p. False)\<rparr>, ex_fresh), (ex_env, ex_fresh), (ex_env, ex_fresh)]
          ex_fresh) =
     [Inl E_FAIL, Inl E_FAIL, Inl E_FAIL] \<and>
   preparations (snd (PrepareSymbolReader_calls
          [(ex_env\<lparr>DLOpen := (\<lambda>p. False)\<rparr>, ex_fresh), (ex_env, ex_fresh), (ex_env, ex_fresh)]
          ex_fresh)) = 1"
  by (simp add: PrepareSymbolReader_def other_writes_def ex_env_def ex_fresh_def Let_def)

section \<open>Hidden lines\<close>

text \<open>
  C8. With the delegate bound to the managed entry point (modelled from the spec), a
  call of \<open>GetLineByILOffset\<close> for a method token and offset whose resolved line is the
  hidden-line marker \<open>0xfeefee\<close> yields no line and file name: it returns \<open>E_FAIL\<close>, or
  \<open>E_OUTOFMEMORY\<close> when the buffer for the name could not be allocated first. (With a
  null allocator pointer the call does not return a status at all.)
\<close>

theorem GetLineByILOffset_hidden_line:
  assumes "getLineByILOffsetDelegate st = Some (managed_GetLineByILOffset resolve)"
    and "resolve (m_symbolReaderHandle sr) methodToken ilOffset = Some (HiddenLine, fileName)"
  shows "(\<exists>e. GetLineByILOffset st sr methodToken ilOffset cchFileName = Inl e) \<and>
         (sysAllocStringLen st \<noteq> None \<and> sysStringLen st \<noteq> None \<longrightarrow>
            GetLineByILOffset st sr methodToken ilOffset cchFileName = Inl E_FAIL \<or>
            GetLineByILOffset st sr methodToken ilOffset cchFileName = Inl E_OUTOFMEMORY)"
  using assms
  by (auto simp: GetLineByILOffset_def managed_GetLineByILOffset_def split: option.splits)

theorem GetLineByILOffset_hidden_line_witness:
  "GetLineByILOffset ex_statics_managed \<lparr>m_symbolReaderHandle = 1\<rparr> 100663297 3 MAX_LONGPATH =
     Inl E_FAIL"
proof -
  have "getLineByILOffsetDelegate ex_statics_managed = Some (managed_GetLineByILOffset ex_resolve)"
    by (simp add: ex_statics_managed_def)
  moreover have "ex_resolve (m_symbolReaderHandle \<lparr>m_symbolReaderHandle = 1\<rparr>) 100663297 3 =
                   Some (HiddenLine, ''/src/Program.cs'')"
    by (simp add: ex_resolve_def)
  ultimately have
    "sysAllocStringLen ex_statics_managed \<noteq> None \<and> sysStringLen ex_statics_managed \<noteq> None \<longrightarrow>
       GetLineByILOffset ex_statics_managed \<lparr>m_symbolReaderHandle = 1\<rparr> 100663297 3 MAX_LONGPATH =
         Inl E_FAIL \<or>
       GetLineByILOffset ex_statics_managed \<lparr>m_symbolReaderHandle = 1\<rparr> 100663297 3 MAX_LONGPATH =
         Inl E_OUTOFMEMORY"
    using GetLineByILOffset_hidden_line by blast
  moreover have
    "GetLineByILOffset ex_statics_managed \<lparr>m_symbolReaderHandle = 1\<rparr> 100663297 3 MAX_LONGPATH \<noteq>
       Inl E_OUTOFMEMORY"
    by (simp add: GetLineByILOffset_def ex_statics_managed_def ex_defs split: option.splits)
  ultimately show ?thesis
    by (simp add: ex_statics_managed_def ex_defs)
qed

text \<open>
  The same reader at an offset with an ordinary line answers; and the native function
  by itself tests the delegate's result and the line 0 only, so it relies on the
  managed side for the marker. A file name that does not fit the caller's buffer comes
  back empty, with \<open>S_OK\<close>.
\<close>

lemma GetLineByILOffset_visible_example:
  "GetLineByILOffset ex_statics_managed \<lparr>m_symbolReaderHandle = 1\<rparr> 100663297 4 MAX_LONGPATH =
     Inr (8, ''/src/Program.cs'')"
  by (simp add: GetLineByILOffset_def managed_GetLineByILOffset_def ex_resolve_def
        ex_statics_managed_def HiddenLine_def ex_defs)

lemma GetLineByILOffset_native_tests:
  assumes "m_symbolReaderHandle sr \<noteq> 0"
    and "getLineByILOffsetDelegate st = Some dlg"
    and "sysAllocStringLen st = Some alloc"
    and "sysStringLen st = Some strlen"
    and "strlen (alloc MAX_LONGPATH) \<noteq> 0"
  shows "GetLineByILOffset st sr methodToken ilOffset cchFileName =
           (case dlg (m_symbolReaderHandle sr) methodToken ilOffset of
              None \<Rightarrow> Inl E_FAIL
            | Some (linenum, fileName) \<Rightarrow>
                if linenum = 0 then Inl E_FAIL
                else Inr (linenum, wcscpy_s cchFileName fileName))"
  using assms by (simp add: GetLineByILOffset_def)

lemma GetLineByILOffset_long_name:
  assumes "m_symbolReaderHandle sr \<noteq> 0"
    and "getLineByILOffsetDelegate st = Some dlg"
    and "sysAllocStringLen st = Some alloc"
    and "sysStringLen st = Some strlen"
    and "strlen (alloc MAX_LONGPATH) \<noteq> 0"
    and "dlg (m_symbolReaderHandle sr) methodToken ilOffset = Some (linenum, fileName)"
    and "linenum \<noteq> 0"
    and "cchFileName \<le> length fileName"
  shows "GetLineByILOffset st sr methodToken ilOffset cchFileName = Inr (linenum, [])"
  using assms by (simp add: GetLineByILOffset_def wcscpy_s_def)

lemma GetLineByILOffset_allocates_first:
  assumes "m_symbolReaderHandle sr \<noteq> 0"
    and "sysAllocStringLen st = Some alloc"
    and "sysStringLen st = Some strlen"
    and "strlen (alloc MAX_LONGPATH) = 0"
  shows "GetLineByILOffset st sr methodToken ilOffset cchFileName = Inl E_OUTOFMEMORY"
  using assms by (simp add: GetLineByILOffset_def)

section \<open>The format of the module identifier\<close>

lemma hex_digit_hexset: "hex_digit d \<in> hexset"
proof -
  have "d mod 16 < length ''0123456789abcdef''" by simp
  then have "''0123456789abcdef'' ! (d mod 16) \<in> set ''0123456789abcdef''"
    by (rule nth_mem)
  then show ?thesis by (simp only: hex_digit_def hexset_def)
qed

lemma hex_of_nat_hexset: "set (hex_of_nat n) \<subseteq> hexset"
proof (induction n rule: hex_of_nat.induct)
  case (1 n)
  show ?case
  proof (cases "n < 16")
    case True
    then show ?thesis
      by (subst hex_of_nat.simps) (simp add: hex_digit_hexset)
  next
    case False
    then show ?thesis
      using 1 by (subst hex_of_nat.simps) (simp add: hex_digit_hexset)
  qed
qed

lemma hex_of_nat_length: "0 < k \<Longrightarrow> n < 16 ^ k \<Longrightarrow> length (hex_of_nat n) \<le> k"
proof (induction n arbitrary: k rule: hex_of_nat.induct)
  case (1 n)
  show ?case
  proof (cases "n < 16")
    case True
    then show ?thesis
      using "1.prems" by (subst hex_of_nat.simps) simp
  next
    case False
    obtain j where k: "k = Suc j"
      using "1.prems"(1) by (cases k) simp_all
    have "0 < j"
    proof (cases j)
      case 0
      with k "1.prems"(2) False show ?thesis by simp
    qed simp
    moreover have "n div 16 < 16 ^ j"
      using "1.prems"(2) k by (simp add: less_mult_imp_div_less mult.commute)
    ultimately have "length (hex_of_nat (n div 16)) \<le> j"
      using "1.IH" [OF False] by simp
    then show ?thesis
      using False k by (subst hex_of_nat.simps) simp
  qed
qed

lemma setw_hex_length:
  "0 < w \<Longrightarrow> n < 16 ^ w \<Longrightarrow> length (setw_setfill w (CHR ''0'') (hex_of_nat n)) = w"
  using hex_of_nat_length [of w n] by (simp add: setw_setfill_def)

lemma setw_hex_hexset: "set (setw_setfill w (CHR ''0'') (hex_of_nat n)) \<subseteq> hexset"
proof -
  have "CHR ''0'' \<in> hexset" by (simp add: hexset_def)
  then show ?thesis
    using hex_of_nat_hexset [of n] by (auto simp: setw_setfill_def)
qed

lemma Data4_byte_bound: "unat ((ucast (b :: 8 word) :: 32 word) AND 0xFF) < 16 ^ 2"
proof -
  have "unat ((ucast b :: 32 word) AND 0xFF) \<le> unat (0xFF :: 32 word)"
    by (rule word_and_le1 [THEN word_le_nat_alt [THEN iffD1]])
  then show ?thesis by simp
qed

lemma Data4_hex_length: "length (Data4_hex mvid i) = 2"
  unfolding Data4_hex_def using Data4_byte_bound by (intro setw_hex_length) simp_all

lemma Data4_hex_hexset: "set (Data4_hex mvid i) \<subseteq> hexset"
  unfolding Data4_hex_def by (rule setw_hex_hexset)

lemma upt_2_8: "[2..<8] = [2, 3, 4, 5, 6, 7 :: nat]"
  by (simp add: upt_rec)

lemma split_on_no_sep: "c \<notin> set s \<Longrightarrow> split_on c s = [s]"
  by (induction s) auto

lemma split_on_group: "c \<notin> set a \<Longrightarrow> split_on c (a @ c # b) = a # split_on c b"
  by (induction a) auto

lemma hyphen_not_hex: "s \<subseteq> hexset \<Longrightarrow> CHR ''-'' \<notin> s"
  by (auto simp: hexset_def)

lemma format_mvid_groups:
  "\<exists>g1 g2 g3 g4 g5.
     format_mvid mvid = g1 @ CHR ''-'' # g2 @ CHR ''-'' # g3 @ CHR ''-'' # g4 @ CHR ''-'' # g5 \<and>
     length g1 = 8 \<and> length g2 = 4 \<and> length g3 = 4 \<and> length g4 = 4 \<and> length g5 = 12 \<and>
     set g1 \<subseteq> hexset \<and> set g2 \<subseteq> hexset \<and> set g3 \<subseteq> hexset \<and> set g4 \<subseteq> hexset \<and>
     set g5 \<subseteq> hexset"
proof -
  let ?g1 = "setw_setfill 8 (CHR ''0'') (hex_of_nat (unat (Data1 mvid)))"
  let ?g2 = "setw_setfill 4 (CHR ''0'') (hex_of_nat (unat (Data2 mvid)))"
  let ?g3 = "setw_setfill 4 (CHR ''0'') (hex_of_nat (unat (Data3 mvid)))"
  let ?g4 = "Data4_hex mvid 0 @ Data4_hex mvid 1"
  let ?g5 = "concat (map (Data4_hex mvid) [2..<8])"
  have b1: "unat (Data1 mvid) < 16 ^ 8"
    using unsigned_less [of "Data1 mvid", where 'a = nat] by simp
  have b2: "unat (Data2 mvid) < 16 ^ 4"
    using unsigned_less [of "Data2 mvid", where 'a = nat] by simp
  have b3: "unat (Data3 mvid) < 16 ^ 4"
    using unsigned_less [of "Data3 mvid", where 'a = nat] by simp
  have "format_mvid mvid = ?g1 @ CHR ''-'' # ?g2 @ CHR ''-'' # ?g3 @ CHR ''-'' # ?g4 @ CHR ''-'' # ?g5"
    by (simp add: format_mvid_def)
  moreover have "length ?g1 = 8" by (rule setw_hex_length [OF _ b1]) simp
  moreover have "length ?g2 = 4" by (rule setw_hex_length [OF _ b2]) simp
  moreover have "length ?g3 = 4" by (rule setw_hex_length [OF _ b3]) simp
  moreover have "length ?g4 = 4" by (simp add: Data4_hex_length)
  moreover have "length ?g5 = 12" by (simp add: upt_2_8 Data4_hex_length)
  moreover have "set ?g1 \<subseteq> hexset" "set ?g2 \<subseteq> hexset" "set ?g3 \<subseteq> hexset"
    by (rule setw_hex_hexset)+
  moreover have "set ?g4 \<subseteq> hexset"
    using Data4_hex_hexset [of mvid 0] Data4_hex_hexset [of mvid 1] by simp
  moreover have "set ?g5 \<subseteq> hexset"
    using Data4_hex_hexset [of mvid] by auto
  ultimately show ?thesis by blast
qed

text \<open>
  The five groups are the fields themselves: \<open>Data1\<close>, \<open>Data2\<close> and \<open>Data3\<close> padded to
  their widths, the first two bytes of \<open>Data4\<close>, and its last six.
\<close>

lemma format_mvid_fields:
  "split_on (CHR ''-'') (format_mvid mvid) =
     [setw_setfill 8 (CHR ''0'') (hex_of_nat (unat (Data1 mvid))),
      setw_setfill 4 (CHR ''0'') (hex_of_nat (unat (Data2 mvid))),
      setw_setfill 4 (CHR ''0'') (hex_of_nat (unat (Data3 mvid))),
      Data4_hex mvid 0 @ Data4_hex mvid 1,
      concat (map (Data4_hex mvid) [2..<8])]"
proof -
  let ?g1 = "setw_setfill 8 (CHR ''0'') (hex_of_nat (unat (Data1 mvid)))"
  let ?g2 = "setw_setfill 4 (CHR ''0'') (hex_of_nat (unat (Data2 mvid)))"
  let ?g3 = "setw_setfill 4 (CHR ''0'') (hex_of_nat (unat (Data3 mvid)))"
  let ?g4 = "Data4_hex mvid 0 @ Data4_hex mvid 1"
  let ?g5 = "concat (map (Data4_hex mvid) [2..<8])"
  have f: "format_mvid mvid = ?g1 @ CHR ''-'' # ?g2 @ CHR ''-'' # ?g3 @ CHR ''-'' # ?g4 @ CHR ''-'' # ?g5"
    by (simp add: format_mvid_def)
  have n1: "CHR ''-'' \<notin> set ?g1" by (rule hyphen_not_hex [OF setw_hex_hexset])
  have n2: "CHR ''-'' \<notin> set ?g2" by (rule hyphen_not_hex [OF setw_hex_hexset])
  have n3: "CHR ''-'' \<notin> set ?g3" by (rule hyphen_not_hex [OF setw_hex_hexset])
  have "set ?g4 \<subseteq> hexset"
    using Data4_hex_hexset [of mvid 0] Data4_hex_hexset [of mvid 1] by simp
  then have n4: "CHR ''-'' \<notin> set ?g4" by (rule hyphen_not_hex)
  have "set ?g5 \<subseteq> hexset"
    using Data4_hex_hexset [of mvid] by auto
  then have n5: "CHR ''-'' \<notin> set ?g5" by (rule hyphen_not_hex)
  have "split_on (CHR ''-'') (format_mvid mvid) = ?g1 # ?g2 # ?g3 # ?g4 # split_on (CHR ''-'') ?g5"
    unfolding f
    by (simp only: split_on_group [OF n1] split_on_group [OF n2] split_on_group [OF n3]
          split_on_group [OF n4])
  then show ?thesis
    by (simp only: split_on_no_sep [OF n5])
qed

text \<open>
  C9, as the code has it. When the metadata calls succeed, the identifier is the text
  \<open>format_mvid\<close> makes of the MVID and of nothing else (so equal values give equal
  identifiers). It is 36 characters long, consists of the lower-case hexadecimal digits
  and the hyphen, and its hyphens cut it into five groups of 8, 4, 4, 4 and 12 digits:
  \<open>Data1\<close>, \<open>Data2\<close>, \<open>Data3\<close>, bytes 0 and 1 of \<open>Data4\<close>, and bytes 2 to 7 of
  \<open>Data4\<close>, each zero-padded to its width.
\<close>

theorem GetModuleId_format:
  assumes "GetMetaDataInterface pModule = Inr pMDUnknown"
    and "QueryInterface_IMetaDataImport pMDUnknown = Inr pMDImport"
    and "GetScopeProps pMDImport = Inr mvid"
  shows "GetModuleId pModule = Inr (format_mvid mvid) \<and>
         map length (split_on (CHR ''-'') (format_mvid mvid)) = [8, 4, 4, 4, 12] \<and>
         length (format_mvid mvid) = 36 \<and>
         set (format_mvid mvid) \<subseteq> set ''0123456789abcdef-''"
proof -
  obtain g1 g2 g3 g4 g5 where
    f: "format_mvid mvid = g1 @ CHR ''-'' # g2 @ CHR ''-'' # g3 @ CHR ''-'' # g4 @ CHR ''-'' # g5"
    and l: "length g1 = 8" "length g2 = 4" "length g3 = 4" "length g4 = 4" "length g5 = 12"
    and h: "set g1 \<subseteq> hexset" "set g2 \<subseteq> hexset" "set g3 \<subseteq> hexset" "set g4 \<subseteq> hexset"
      "set g5 \<subseteq> hexset"
    using format_mvid_groups [of mvid] by blast
  have id: "GetModuleId pModule = Inr (format_mvid mvid)"
    using assms by (simp add: GetModuleId_def)
  have n1: "CHR ''-'' \<notin> set g1" using h(1) by (rule hyphen_not_hex)
  have n2: "CHR ''-'' \<notin> set g2" using h(2) by (rule hyphen_not_hex)
  have n3: "CHR ''-'' \<notin> set g3" using h(3) by (rule hyphen_not_hex)
  have n4: "CHR ''-'' \<notin> set g4" using h(4) by (rule hyphen_not_hex)
  have n5: "CHR ''-'' \<notin> set g5" using h(5) by (rule hyphen_not_hex)
  have "split_on (CHR ''-'') (format_mvid mvid) =
          g1 # g2 # g3 # g4 # split_on (CHR ''-'') g5"
    unfolding f
    by (simp only: split_on_group [OF n1] split_on_group [OF n2] split_on_group [OF n3]
          split_on_group [OF n4])
  then have groups: "split_on (CHR ''-'') (format_mvid mvid) = [g1, g2, g3, g4, g5]"
    by (simp only: split_on_no_sep [OF n5])
  have "map length [g1, g2, g3, g4, g5] = [8, 4, 4, 4, 12]"
    by (simp only: list.map l)
  then have lens: "map length (split_on (CHR ''-'') (format_mvid mvid)) = [8, 4, 4, 4, 12]"
    by (simp only: groups)
  have len: "length (format_mvid mvid) = 36"
    unfolding f using l by simp
  have "set (format_mvid mvid) \<subseteq> insert (CHR ''-'') hexset"
    unfolding f using h by auto
  moreover have "insert (CHR ''-'') hexset \<subseteq> set ''0123456789abcdef-''"
    unfolding hexset_def by simp
  ultimately have chars: "set (format_mvid mvid) \<subseteq> set ''0123456789abcdef-''"
    by (rule subset_trans)
  show ?thesis
    using id lens len chars by (intro conjI)
qed

lemma replicate_numeral_unfold:
  "replicate (numeral k) x = x # replicate (pred_numeral k) x"
  by (simp add: numeral_eq_Suc)

lemma format_mvid_example: "format_mvid ex_guid = ''001a2b3c-4d5e-000f-0001-abcdef0203ff''"
  by (simp add: format_mvid_def Data4_hex_def setw_setfill_def hex_of_nat.simps hex_digit_def
        ex_guid_def upt_2_8 replicate_numeral_unfold)

theorem GetModuleId_format_witness:
  "GetModuleId (ex_module ''/app/Program.dll'' 4096) = Inr ''001a2b3c-4d5e-000f-0001-abcdef0203ff'' \<and>
   map length (split_on (CHR ''-'') ''001a2b3c-4d5e-000f-0001-abcdef0203ff'') = [8, 4, 4, 4, 12]"
  using GetModuleId_format
    [where pModule = "ex_module ''/app/Program.dll'' 4096" and pMDUnknown = ex_unknown
       and pMDImport = "\<lparr>GetScopeProps = Inr ex_guid\<rparr>" and mvid = ex_guid]
  by (simp add: ex_module_def ex_unknown_def format_mvid_example)

text \<open>
  C9 as stated fails: the identifier of the example module has five groups, of 8, 4, 4,
  4 and 12 digits, not six groups of 8, 4, 4, 2, 2 and 6.
\<close>

theorem GetModuleId_grouping_counterexample:
  "GetModuleId (ex_module ''/app/Program.dll'' 4096) = Inr ''001a2b3c-4d5e-000f-0001-abcdef0203ff'' \<and>
   map length (split_on (CHR ''-'') ''001a2b3c-4d5e-000f-0001-abcdef0203ff'') \<noteq> [8, 4, 4, 2, 2, 6]"
  by (simp add: GetModuleId_def ex_module_def ex_unknown_def format_mvid_example)

section \<open>Registration\<close>

lemma registry_find_insert_fresh:
  "a \<notin> fst ` set m \<Longrightarrow> registry_find (registry_insert m (a, v)) a = Some v"
proof -
  assume "a \<notin> fst ` set m"
  then have "map_of m a = None"
    by (simp add: map_of_eq_None_iff)
  then show ?thesis
    using \<open>a \<notin> fst ` set m\<close>
    by (simp add: registry_find_def registry_insert_def map_add_def)
qed



lemma LoadSymbolsForPortablePDB_loaded:
  "LoadSymbolsForPortablePDB env st new_SymbolReader p m l a s pa ps = (r, st', sr') \<Longrightarrow>
     (r = Inr ()) = SymbolsLoaded' sr'"
  by (auto simp: LoadSymbolsForPortablePDB_def SymbolsLoaded'_def new_SymbolReader_def Let_def
        split: if_splits prod.splits sum.splits option.splits)

lemma LoadSymbols_loaded:
  "LoadSymbols env st new_SymbolReader pMD pModule = (r, st', sr') \<Longrightarrow>
     (r = Inr ()) = SymbolsLoaded' sr'"
  by (auto simp: LoadSymbols_def SymbolsLoaded'_def new_SymbolReader_def
        dest: LoadSymbolsForPortablePDB_loaded [unfolded SymbolsLoaded'_def new_SymbolReader_def]
        split: if_splits sum.splits)

lemma LoadSymbols_dynamic:
  "IsDynamic pModule = Inr True \<Longrightarrow>
     \<exists>e. LoadSymbols env st sr pMD pModule = (Inl e, st, sr)"
  by (simp add: LoadSymbols_def split: sum.splits)

text \<open>
  C4, as the code has it. For a module handle that yields metadata, whatever the call
  returns: the caller's \<open>symbolStatus\<close> is \<open>Skipped\<close> when the predicate rejects the
  path, and then the reader keeps the null handle and the statics are untouched (no
  load was attempted); \<open>NotFound\<close> when the predicate accepts and \<open>LoadSymbols\<close> fails;
  \<open>Loaded\<close> when it succeeds. In each of the three cases, if the identifier, the base
  address and the size can then be read, the call returns \<open>S_OK\<close>, and if no record was
  present at that base address the registry now maps it to the record of this module,
  whose reader has symbols exactly when the status is \<open>Loaded\<close>. If one of the three
  reads fails, the call returns the failure of the first of them that fails (in the
  order identifier, base address, size) and the registry is as it was; and a call that
  fails has failed in one of those reads.
\<close>

theorem TryLoadModuleSymbols_status:
  assumes "GetMetaDataInterface pModule = Inr pMDUnknown"
    and "QueryInterface_IMetaDataImport pMDUnknown = Inr pMDImport"
    and "TryLoadModuleSymbols env st m_modulesInfo pModule module0 = (r, module', st', m')"
  shows "(\<not> ShouldLoadSymbolsForModule env (GetModuleFileName pModule) \<longrightarrow>
            symbolStatus module' = SymbolsSkipped \<and> st' = st) \<and>
         (ShouldLoadSymbolsForModule env (GetModuleFileName pModule) \<and>
          fst (LoadSymbols env st new_SymbolReader pMDImport pModule) \<noteq> Inr () \<longrightarrow>
            symbolStatus module' = SymbolsNotFound) \<and>
         (ShouldLoadSymbolsForModule env (GetModuleFileName pModule) \<and>
          fst (LoadSymbols env st new_SymbolReader pMDImport pModule) = Inr () \<longrightarrow>
            symbolStatus module' = SymbolsLoaded) \<and>
         (\<forall>mid a sz.
            GetModuleId pModule = Inr mid \<and> GetBaseAddress pModule = Inr a \<and>
            GetSize pModule = Inr sz \<longrightarrow>
              r = Inr () \<and> baseAddress module' = a \<and>
              (a \<notin> fst ` set m_modulesInfo \<longrightarrow>
                 (\<exists>sr. registry_find m' a = Some \<lparr>symbols = sr, module = pModule\<rparr> \<and>
                       SymbolsLoaded' sr = (symbolStatus module' = SymbolsLoaded) \<and>
                       (symbolStatus module' = SymbolsSkipped \<longrightarrow> sr = new_SymbolReader)))) \<and>
         (\<forall>e. r = Inl e \<longrightarrow>
            m' = m_modulesInfo \<and>
            (GetModuleId pModule = Inl e \<or> GetBaseAddress pModule = Inl e \<or>
             GetSize pModule = Inl e)) \<and>
         (\<forall>e. GetModuleId pModule = Inl e \<longrightarrow> r = Inl e \<and> m' = m_modulesInfo) \<and>
         (\<forall>e mid.
            GetModuleId pModule = Inr mid \<and> GetBaseAddress pModule = Inl e \<longrightarrow>
              r = Inl e \<and> m' = m_modulesInfo) \<and>
         (\<forall>e mid a.
            GetModuleId pModule = Inr mid \<and> GetBaseAddress pModule = Inr a \<and>
            GetSize pModule = Inl e \<longrightarrow>
              r = Inl e \<and> m' = m_modulesInfo)"
proof (cases "ShouldLoadSymbolsForModule env (GetModuleFileName pModule)")
  case False
  then show ?thesis
    using assms
    by (auto simp: TryLoadModuleSymbols_def Let_def registry_find_insert_fresh
          SymbolsLoaded'_def new_SymbolReader_def
          split: sum.splits)
next
  case True
  obtain lr st1 sr1 where ls: "LoadSymbols env st new_SymbolReader pMDImport pModule = (lr, st1, sr1)"
    by (cases "LoadSymbols env st new_SymbolReader pMDImport pModule") auto
  have loaded: "(lr = Inr ()) = SymbolsLoaded' sr1"
    using ls by (rule LoadSymbols_loaded)
  show ?thesis
    using assms True ls loaded
    by (auto simp: TryLoadModuleSymbols_def Let_def registry_find_insert_fresh
          split: sum.splits)
qed

lemmas ex_load_defs = LoadSymbols_def LoadSymbolsForPortablePDB_def GetModuleFileName_def
  selfPrefix_def to_utf8_def new_SymbolReader_def ex_statics_def ex_env_def ex_module_def
  ex_unknown_def

text \<open>
  Three registrations into an empty registry, in a process whose set-up has succeeded:
  \<open>/app/Program.dll\<close> gets \<open>Loaded\<close>; \<open>/app/System.Runtime.dll\<close>, which the
  predicate rejects, gets \<open>Skipped\<close>; \<open>/app/Other.dll\<close>, for which the provider
  returns no handle, gets \<open>NotFound\<close>.
\<close>

theorem TryLoadModuleSymbols_status_witness:
  "symbolStatus (fst (snd (TryLoadModuleSymbols ex_env ex_statics []
       (ex_module ''/app/Program.dll'' 4096) ex_module0))) = SymbolsLoaded \<and>
   symbolStatus (fst (snd (TryLoadModuleSymbols ex_env ex_statics []
       (ex_module ''/app/System.Runtime.dll'' 4096) ex_module0))) = SymbolsSkipped \<and>
   symbolStatus (fst (snd (TryLoadModuleSymbols ex_env ex_statics []
       (ex_module ''/app/Other.dll'' 4096) ex_module0))) = SymbolsNotFound"
proof -
  have md: "GetMetaDataInterface (ex_module f a) = Inr ex_unknown"
    "QueryInterface_IMetaDataImport ex_unknown = Inr \<lparr>GetScopeProps = Inr ex_guid\<rparr>" for f a
    by (simp_all add: ex_module_def ex_unknown_def)
  have run: "TryLoadModuleSymbols ex_env ex_statics [] (ex_module f 4096) ex_module0 =
               (fst (TryLoadModuleSymbols ex_env ex_statics [] (ex_module f 4096) ex_module0),
                fst (snd (TryLoadModuleSymbols ex_env ex_statics [] (ex_module f 4096) ex_module0)),
                fst (snd (snd (TryLoadModuleSymbols ex_env ex_statics [] (ex_module f 4096)
                   ex_module0))),
                snd (snd (snd (TryLoadModuleSymbols ex_env ex_statics [] (ex_module f 4096)
                   ex_module0))))" for f
    by simp
  note status = TryLoadModuleSymbols_status [OF md run]
  have a: "ShouldLoadSymbolsForModule ex_env (GetModuleFileName (ex_module ''/app/Program.dll'' 4096))"
    "fst (LoadSymbols ex_env ex_statics new_SymbolReader \<lparr>GetScopeProps = Inr ex_guid\<rparr>
            (ex_module ''/app/Program.dll'' 4096)) = Inr ()"
    by (simp_all add: ex_load_defs)
  have b: "\<not> ShouldLoadSymbolsForModule ex_env
               (GetModuleFileName (ex_module ''/app/System.Runtime.dll'' 4096))"
    by (simp add: ex_load_defs)
  have c: "ShouldLoadSymbolsForModule ex_env (GetModuleFileName (ex_module ''/app/Other.dll'' 4096))"
    "fst (LoadSymbols ex_env ex_statics new_SymbolReader \<lparr>GetScopeProps = Inr ex_guid\<rparr>
            (ex_module ''/app/Other.dll'' 4096)) \<noteq> Inr ()"
    by (simp_all add: ex_load_defs)
  show ?thesis
    using status [of "''/app/Program.dll''"] status [of "''/app/System.Runtime.dll''"]
      status [of "''/app/Other.dll''"] a b c
    by blast
qed

text \<open>
  C4 as stated fails in its last part: a module that yields metadata and whose size
  cannot be read gets its status, but the call returns the failure before the insertion
  and the registry stays empty.
\<close>

theorem TryLoadModuleSymbols_not_inserted_counterexample:
  "(case TryLoadModuleSymbols ex_env ex_statics [] ex_nosize ex_module0 of
      (r, module', st', m') \<Rightarrow>
        r = Inl (E_CALLEE (- 2146233599)) \<and> symbolStatus module' = SymbolsNotFound \<and> m' = []) \<and>
   (case GetMetaDataInterface ex_nosize of
      Inl e \<Rightarrow> False
    | Inr pMDUnknown \<Rightarrow>
        (case QueryInterface_IMetaDataImport pMDUnknown of
           Inl e \<Rightarrow> False
         | Inr pMDImport \<Rightarrow> GetScopeProps pMDImport = Inr ex_guid)) \<and>
   GetBaseAddress ex_nosize = Inr 8192"
  by (simp add: TryLoadModuleSymbols_def GetModuleId_def ex_nosize_def ex_module0_def
        SymbolsLoaded'_def ex_load_defs Let_def)

section \<open>One record for each base address\<close>










section \<open>Dynamic and in-memory modules\<close>

text \<open>
  For a module handle that yields metadata and for which \<open>IsDynamic\<close> reports true,
  \<open>LoadSymbols\<close> fails without calling the provider (the statics are untouched), so
  the status is never \<open>Loaded\<close>: it is \<open>NotFound\<close> when the predicate accepted the
  path and \<open>Skipped\<close> when it did not. The failed load does not fail the registration:
  if the identifier, the base address and the size can be read the call returns
  \<open>S_OK\<close>, and the record inserted at a free address holds a reader with the null
  handle.
\<close>

lemma TryLoadModuleSymbols_dynamic:
  assumes "GetMetaDataInterface pModule = Inr pMDUnknown"
    and "QueryInterface_IMetaDataImport pMDUnknown = Inr pMDImport"
    and "IsDynamic pModule = Inr True"
    and "TryLoadModuleSymbols env st m_modulesInfo pModule module0 = (r, module', st', m')"
  shows "symbolStatus module' \<noteq> SymbolsLoaded \<and>
         symbolStatus module' =
           (if ShouldLoadSymbolsForModule env (GetModuleFileName pModule) then SymbolsNotFound
            else SymbolsSkipped) \<and>
         st' = st \<and>
         (\<forall>mid a sz.
            GetModuleId pModule = Inr mid \<and> GetBaseAddress pModule = Inr a \<and>
            GetSize pModule = Inr sz \<longrightarrow>
              r = Inr () \<and>
              (a \<notin> fst ` set m_modulesInfo \<longrightarrow>
                 registry_find m' a = Some \<lparr>symbols = new_SymbolReader, module = pModule\<rparr>))"
proof -
  obtain e where "LoadSymbols env st new_SymbolReader pMDImport pModule = (Inl e, st, new_SymbolReader)"
    using LoadSymbols_dynamic [OF assms(3)] by blast
  then show ?thesis
    using assms(1,2,4)
    by (auto simp: TryLoadModuleSymbols_def Let_def registry_find_insert_fresh
          SymbolsLoaded'_def new_SymbolReader_def
          split: sum.splits if_splits)
qed

lemma TryLoadModuleSymbols_dynamic_example:
  "fst (TryLoadModuleSymbols ex_env ex_statics ex_registry ex_dynamic ex_module0) = Inr () \<and>
   symbolStatus (fst (snd (TryLoadModuleSymbols ex_env ex_statics ex_registry ex_dynamic
       ex_module0))) = SymbolsNotFound \<and>
   registry_find (snd (snd (snd (TryLoadModuleSymbols ex_env ex_statics ex_registry ex_dynamic
       ex_module0)))) 16384 = Some \<lparr>symbols = new_SymbolReader, module = ex_dynamic\<rparr>"
proof -
  let ?t = "TryLoadModuleSymbols ex_env ex_statics ex_registry ex_dynamic ex_module0"
  have md: "GetMetaDataInterface ex_dynamic = Inr ex_unknown"
    "QueryInterface_IMetaDataImport ex_unknown = Inr \<lparr>GetScopeProps = Inr ex_guid\<rparr>"
    "IsDynamic ex_dynamic = Inr True"
    by (simp_all add: ex_dynamic_def ex_module_def ex_unknown_def)
  have run: "?t = (fst ?t, fst (snd ?t), fst (snd (snd ?t)), snd (snd (snd ?t)))"
    by simp
  have calls: "GetModuleId ex_dynamic = Inr (format_mvid ex_guid) \<and>
               GetBaseAddress ex_dynamic = Inr 16384 \<and> GetSize ex_dynamic = Inr 8192"
    by (simp add: GetModuleId_def ex_dynamic_def ex_module_def ex_unknown_def)
  have free: "16384 \<notin> fst ` set ex_registry"
    by (simp add: ex_registry_def)
  have accept: "ShouldLoadSymbolsForModule ex_env (GetModuleFileName ex_dynamic)"
    by (simp add: ex_dynamic_def ex_load_defs)
  show ?thesis
    using TryLoadModuleSymbols_dynamic [OF md run] calls free accept
    by (simp del: split_paired_All)
qed

text \<open>
  What the code computes for a module that is in memory and not dynamic, once the
  delegate is bound: the module passes the guard, the provider is called with a null
  name and the file-layout flag, and the status follows the handle it returns.
\<close>

lemma TryLoadModuleSymbols_inmemory_status:
  assumes "GetMetaDataInterface pModule = Inr pMDUnknown"
    and "QueryInterface_IMetaDataImport pMDUnknown = Inr pMDImport"
    and "TryLoadModuleSymbols env st m_modulesInfo pModule module0 = (r, module', st', m')"
    and "IsDynamic pModule = Inr False" and "IsInMemory pModule = Inr True"
    and "ShouldLoadSymbolsForModule env (GetModuleFileName pModule)"
    and "GetBaseAddress pModule = Inr a" and "GetSize pModule = Inr sz"
    and "loadSymbolsForModuleDelegate st = Some dlg"
  shows "symbolStatus module' =
           (if dlg None True a (ucast (ucast sz :: 64 word)) 0 0 \<noteq> 0 then SymbolsLoaded
            else SymbolsNotFound)"
proof -
  let ?h = "dlg None True a (ucast (ucast sz :: 64 word)) 0 0"
  have ls: "LoadSymbols env st new_SymbolReader pMDImport pModule =
              (if ?h = 0 then Inl E_FAIL else Inr (), st, \<lparr>m_symbolReaderHandle = ?h\<rparr>)"
    using assms(4-9)
    by (simp add: LoadSymbols_def LoadSymbolsForPortablePDB_def new_SymbolReader_def)
  show ?thesis
    using assms(1-3,6) ls
    by (auto simp: TryLoadModuleSymbols_def Let_def SymbolsLoaded'_def split: sum.splits)
qed

text \<open>
  C7. The claim holds for dynamic modules (lemma \<open>TryLoadModuleSymbols_dynamic\<close>) and
  the code breaks it for a module that is in memory and not dynamic. The guard of
  \<open>LoadSymbols\<close> stands under the comment that dynamic and in-memory assemblies are
  the case to ignore, and tests \<open>isDynamic\<close> alone. At the module \<open>ex_inmemory\<close>
  (\<open>IsDynamic\<close> false, \<open>IsInMemory\<close> true, a path the predicate accepts, a provider
  that returns the handle 7 for an image read from memory) the registration returns
  \<open>S_OK\<close> with the status \<open>Loaded\<close> and a reader holding that handle in the registry,
  where the claim has the load fail and the status \<open>NotFound\<close>.
\<close>

theorem TryLoadModuleSymbols_inmemory_loaded:
  "(case TryLoadModuleSymbols ex_env ex_statics [] ex_inmemory ex_module0 of
      (r, module', st', m') \<Rightarrow>
        r = Inr () \<and> symbolStatus module' = SymbolsLoaded \<and>
        m' = [(12288, \<lparr>symbols = \<lparr>m_symbolReaderHandle = 7\<rparr>, module = ex_inmemory\<rparr>)]) \<and>
   IsInMemory ex_inmemory = Inr True \<and> IsDynamic ex_inmemory = Inr False"
  by (simp add: TryLoadModuleSymbols_def GetModuleId_def ex_module0_def ex_inmemory_def
        registry_insert_def SymbolsLoaded'_def ex_load_defs Let_def)

end
